theory Spec2Isabelle
  imports
    Main
    "HOL-Library.Sublist"
    "HOL-Library.Char_ord"
    "HOL-Library.List_Lexorder"
    "HOL-Library.Product_Lexorder"
    "HOL-Library.Multiset"
begin

section \<open>Python string operations used by the report tool\<close>

text \<open>
  A Python \<open>str\<close> is modelled as a \<open>string\<close> (a list of characters); a character outside
  ASCII is written as the bytes of its UTF-8 encoding, as in the files. The operations
  below are the ones the two command-line programs call on strings: the substring test
  \<open>sub in s\<close>, \<open>s.find(sub)\<close>, \<open>s.replace(old, new)\<close>, \<open>s.replace(old, new, count)\<close> and
  \<open>sep.join(parts)\<close>. The texts the programs search for are not empty, and an encoded
  text occurs in another one only where a character starts.
\<close>

text \<open>\<open>sub in s\<close>: some suffix of \<open>s\<close> starts with \<open>sub\<close>.\<close>

fun contains :: "string \<Rightarrow> string \<Rightarrow> bool" where
  "contains sub [] = (sub = [])"
| "contains sub (c # cs) = (prefix sub (c # cs) \<or> contains sub cs)"

text \<open>\<open>s.find(sub)\<close>: the least index at which \<open>sub\<close> starts, \<open>None\<close> for Python's \<open>-1\<close>.\<close>

fun str_find :: "string \<Rightarrow> string \<Rightarrow> nat option" where
  "str_find sub [] = (if sub = [] then Some 0 else None)"
| "str_find sub (c # cs) =
     (if prefix sub (c # cs) then Some 0
      else (case str_find sub cs of None \<Rightarrow> None | Some i \<Rightarrow> Some (Suc i)))"

text \<open>
  \<open>s.replace(old, new)\<close>: scanning from the left, every non-overlapping occurrence of
  \<open>old\<close> is replaced by \<open>new\<close>. With an empty \<open>old\<close>, Python puts \<open>new\<close> before every
  character and at the end.
\<close>

function str_replace :: "string \<Rightarrow> string \<Rightarrow> string \<Rightarrow> string" where
  "str_replace old new [] = (if old = [] then new else [])"
| "str_replace old new (c # cs) =
     (if old = [] then new @ c # str_replace old new cs
      else if prefix old (c # cs)
        then new @ str_replace old new (drop (length old) (c # cs))
      else c # str_replace old new cs)"
  by pat_completeness auto
termination
  by (relation "measure (\<lambda>(old, new, s). length s)") auto

text \<open>\<open>s.replace(old, new, count)\<close> for a count \<open>\<ge> 0\<close>: at most \<open>count\<close> replacements.\<close>

function str_replace_count :: "string \<Rightarrow> string \<Rightarrow> nat \<Rightarrow> string \<Rightarrow> string" where
  "str_replace_count old new 0 s = s"
| "str_replace_count old new (Suc n) [] = (if old = [] then new else [])"
| "str_replace_count old new (Suc n) (c # cs) =
     (if old = [] then new @ c # str_replace_count old new n cs
      else if prefix old (c # cs)
        then new @ str_replace_count old new n (drop (length old) (c # cs))
      else c # str_replace_count old new (Suc n) cs)"
  by pat_completeness auto
termination
  by (relation "measure (\<lambda>(old, new, n, s). length s)") auto

text \<open>\<open>sep.join(parts)\<close>.\<close>

fun join :: "string \<Rightarrow> string list \<Rightarrow> string" where
  "join sep [] = []"
| "join sep [x] = x"
| "join sep (x # y # ys) = x @ sep @ join sep (y # ys)"

text \<open>
  Exceptions that end a command, and how a command ends. An uncaught exception ends the
  process with status 1, \<open>SystemExit\<close> and \<open>typer.Exit\<close> with the status they carry
  (a \<open>SystemExit\<close> holding a message has status 1).
\<close>

datatype exn = FileNotFoundError string | ValueError string | TypeError

datatype status = Done | SysExit nat | Uncaught exn

fun exit_status :: "status \<Rightarrow> nat" where
  "exit_status Done = 0"
| "exit_status (SysExit n) = n"
| "exit_status (Uncaught e) = 1"

section \<open>Configuration (\<open>scriptura.py\<close>)\<close>

text \<open>
  The dataclass \<open>Config\<close>. The four text fields come from \<open>data.get(key, "")\<close> on the parsed
  YAML document, so a field is a string or \<open>None\<close> (an explicit null in the file);
  \<open>sections\<close> and \<open>theme\<close> are optional. A \<open>dict\<close> is an association list in insertion
  order, read with \<open>map_of\<close>.
\<close>

record config =
  title :: "string option"
  subtitle :: "string option"
  prepared :: "string option"
  kicker :: "string option"
  sections :: "string list option"
  theme :: "(string \<times> string) list option"

text \<open>\<open>v or ""\<close> for an optional string.\<close>

definition or_empty :: "string option \<Rightarrow> string" where
  "or_empty v = (case v of None \<Rightarrow> [] | Some s \<Rightarrow> s)"

text \<open>\<open>PLACEHOLDERS\<close>, in the order of the dictionary literal: token and field.\<close>

definition PLACEHOLDERS :: "(string \<times> (config \<Rightarrow> string option)) list" where
  "PLACEHOLDERS =
     [(''[TITLE]'', title), (''[SUBTITLE]'', subtitle),
      (''[PREPARED]'', prepared), (''[KICKER]'', kicker)]"

text \<open>\<open>apply_placeholders\<close>: one \<open>replace\<close> per token, each on the result of the one before.\<close>

definition apply_placeholders :: "string \<Rightarrow> config \<Rightarrow> string" where
  "apply_placeholders html cfg =
     foldl (\<lambda>h (token, key). str_replace token (or_empty (key cfg)) h) html PLACEHOLDERS"

text \<open>
  \<open>Config\<close> declares the four text fields as \<open>str\<close>, and the record above keeps to the
  declaration. \<open>load_config\<close> does not check it: a field holds what \<open>yaml.safe_load\<close> gave for
  the key, which may be a number, a date or a list. Of such a value \<open>v\<close> two things matter
  to \<open>html.replace(token, v or "")\<close>: whether it is a \<open>str\<close>, and whether it is true (\<open>None\<close>,
  \<open>False\<close>, zero and the empty string, list and dictionary are false). \<open>str.replace\<close> checks
  its arguments before it searches, and raises \<open>TypeError\<close> when the new text is not a \<open>str\<close>.
\<close>

datatype pyval = Str string | Other bool

fun truthy :: "pyval \<Rightarrow> bool" where
  "truthy (Str s) = (s \<noteq> [])"
| "truthy (Other b) = b"

text \<open>\<open>v or ""\<close> for any value.\<close>

definition or_empty_str :: "pyval \<Rightarrow> pyval" where
  "or_empty_str v = (if truthy v then v else Str [])"

text \<open>\<open>s.replace(old, new)\<close> for any value \<open>new\<close>.\<close>

definition replace_checked :: "string \<Rightarrow> pyval \<Rightarrow> string \<Rightarrow> exn + string" where
  "replace_checked old new s =
     (case new of Str n \<Rightarrow> Inr (str_replace old n s) | Other b \<Rightarrow> Inl TypeError)"

text \<open>The dictionary \<open>PLACEHOLDERS\<close> as it is written: token and attribute name.\<close>

definition PLACEHOLDER_NAMES :: "(string \<times> string) list" where
  "PLACEHOLDER_NAMES =
     [(''[TITLE]'', ''title''), (''[SUBTITLE]'', ''subtitle''),
      (''[PREPARED]'', ''prepared''), (''[KICKER]'', ''kicker'')]"

text \<open>
  \<open>apply_placeholders\<close> on a configuration as \<open>load_config\<close> returns it: \<open>attr key\<close> is
  \<open>getattr(cfg, key)\<close>. The loop stops at the first \<open>replace\<close> that raises.
\<close>

definition apply_placeholders_any :: "string \<Rightarrow> (string \<Rightarrow> pyval) \<Rightarrow> exn + string" where
  "apply_placeholders_any html attr =
     foldl (\<lambda>acc (token, key).
              case acc of Inl e \<Rightarrow> Inl e
                        | Inr h \<Rightarrow> replace_checked token (or_empty_str (attr key)) h)
       (Inr html) PLACEHOLDER_NAMES"

text \<open>The attributes of a configuration that keeps to the declaration.\<close>

definition declared :: "config \<Rightarrow> string \<Rightarrow> pyval" where
  "declared cfg key =
     (case (if key = ''title'' then title cfg else if key = ''subtitle'' then subtitle cfg
            else if key = ''prepared'' then prepared cfg else kicker cfg) of
        None \<Rightarrow> Other False
      | Some s \<Rightarrow> Str s)"

section \<open>Placeholders of the packaged command line (\<open>cli.py\<close>)\<close>

text \<open>
  \<open>dict.update\<close> on an association list: a key that is present keeps its position and takes
  the new value, a new key goes to the end.
\<close>

fun dict_set :: "(string \<times> string) list \<Rightarrow> string \<Rightarrow> string \<Rightarrow> (string \<times> string) list" where
  "dict_set [] k v = [(k, v)]"
| "dict_set ((k', v') # m) k v = (if k' = k then (k, v) # m else (k', v') # dict_set m k v)"

definition dict_update :: "(string \<times> string) list \<Rightarrow> (string \<times> string) list \<Rightarrow> (string \<times> string) list" where
  "dict_update m extra = foldl (\<lambda>acc (k, v). dict_set acc k v) m extra"

text \<open>\<open>d.get(key, "")\<close>.\<close>

definition dict_get_or_empty :: "(string \<times> string) list \<Rightarrow> string \<Rightarrow> string" where
  "dict_get_or_empty d k = (case map_of d k of None \<Rightarrow> [] | Some v \<Rightarrow> v)"

text \<open>
  \<open>substitute_placeholders\<close>: the values are taken as the strings \<open>str(val)\<close> gives; \<open>extra\<close>
  is \<open>None\<close> or a dictionary (\<open>extra or {}\<close>).
\<close>

definition placeholder_mapping ::
  "(string \<times> string) list \<Rightarrow> (string \<times> string) list option \<Rightarrow> (string \<times> string) list" where
  "placeholder_mapping meta extra =
     dict_update
       [(''TITLE'', dict_get_or_empty meta ''title''),
        (''SUBTITLE'', dict_get_or_empty meta ''subtitle''),
        (''AUTHOR'', dict_get_or_empty meta ''author''),
        (''DATE'', dict_get_or_empty meta ''date'')]
       (case extra of None \<Rightarrow> [] | Some e \<Rightarrow> e)"

definition substitute_placeholders ::
  "string \<Rightarrow> (string \<times> string) list \<Rightarrow> (string \<times> string) list option \<Rightarrow> string" where
  "substitute_placeholders doc meta extra =
     foldl (\<lambda>t (key, val). str_replace (''['' @ key @ '']'') val t) doc
       (placeholder_mapping meta extra)"

section \<open>Assembling the wrapper (\<open>scriptura.py\<close>)\<close>

text \<open>
  \<open>json.dumps\<close> belongs to Python's library. Its result on a string or \<open>None\<close> is the
  parameter \<open>dumps\<close>; on a list of strings it writes the items between brackets, separated
  by a comma and a space, so the empty list is \<open>[]\<close>.
\<close>

definition json_dumps_list :: "(string option \<Rightarrow> string) \<Rightarrow> string list \<Rightarrow> string" where
  "json_dumps_list dumps xs = ''['' @ join '', '' (map (\<lambda>x. dumps (Some x)) xs) @ '']''"

text \<open>\<open>xs or []\<close> for an optional list.\<close>

definition or_nil :: "'a list option \<Rightarrow> 'a list" where
  "or_nil v = (case v of None \<Rightarrow> [] | Some xs \<Rightarrow> xs)"

text \<open>The f-string \<open>boot\<close> of \<open>inject_boot_config\<close>.\<close>

definition boot :: "(string option \<Rightarrow> string) \<Rightarrow> config \<Rightarrow> string" where
  "boot dumps cfg =
     ''\<newline><script>\<newline>window.__CONFIG__ = {\<newline>  title: '' @ dumps (title cfg) @
     '',\<newline>  subtitle: '' @ dumps (subtitle cfg) @
     '',\<newline>  prepared: '' @ dumps (prepared cfg) @
     '',\<newline>  kicker: '' @ dumps (kicker cfg) @
     '',\<newline>  sections: '' @ json_dumps_list dumps (or_nil (sections cfg)) @
     ''\<newline>};\<newline></script>\<newline>''"

definition inject_boot_config :: "(string option \<Rightarrow> string) \<Rightarrow> string \<Rightarrow> config \<Rightarrow> string" where
  "inject_boot_config dumps html cfg =
     str_replace ''</head>'' (boot dumps cfg @ ''\<newline></head>'') html"

text \<open>
  The dictionary \<open>mapping\<close> of \<open>override_theme_links\<close>, in the order of the literal.
  \<open>theme.get(k)\<close> is \<open>map_of theme k\<close>; \<open>a or b\<close> takes \<open>b\<close> when \<open>a\<close> is \<open>None\<close> or empty.
\<close>

definition py_or :: "string option \<Rightarrow> string option \<Rightarrow> string option" where
  "py_or a b = (case a of None \<Rightarrow> b | Some v \<Rightarrow> if v = [] then b else Some v)"

definition theme_mapping :: "(string \<times> string) list \<Rightarrow> (string \<times> string option) list" where
  "theme_mapping th =
     [(''style/general.css'', map_of th ''general''),
      (''style/numbering.css'', map_of th ''numbering''),
      (''style/footer.css'', map_of th ''footer''),
      (''style/cover.css'', map_of th ''cover''),
      (''style/last-page.css'', py_or (map_of th ''last'') (map_of th ''last-page''))]"

text \<open>The text \<open>href="\<dots>"\<close> around a location.\<close>

definition href :: "string \<Rightarrow> string" where
  \<open>href loc = ''href="'' @ loc @ ''"''\<close>

text \<open>One turn of the loop of \<open>override_theme_links\<close>: \<open>if remote:\<close> holds for a non-empty string.\<close>

definition override_step :: "string \<Rightarrow> string \<times> string option \<Rightarrow> string" where
  "override_step html lr =
     (case snd lr of
        None \<Rightarrow> html
      | Some remote \<Rightarrow>
          if remote = [] then html else str_replace (href (fst lr)) (href remote) html)"

definition override_theme_links :: "string \<Rightarrow> (string \<times> string) list \<Rightarrow> string" where
  "override_theme_links html th = foldl override_step html (theme_mapping th)"

text \<open>
  The file system holds regular files: a map from a path to the text of the file.
  \<open>read_text\<close> raises on a path that is not there.
\<close>

type_synonym fs = "string \<rightharpoonup> string"

definition read_text :: "fs \<Rightarrow> string \<Rightarrow> exn + string" where
  "read_text fls p = (case fls p of None \<Rightarrow> Inl (FileNotFoundError p) | Some s \<Rightarrow> Inr s)"

definition write_text :: "fs \<Rightarrow> string \<Rightarrow> string \<Rightarrow> fs" where
  "write_text fls p s = fls(p \<mapsto> s)"

text \<open>\<open>assemble_html\<close>; \<open>if cfg.theme:\<close> holds for a non-empty dictionary.\<close>

definition assemble_html ::
  "(string option \<Rightarrow> string) \<Rightarrow> fs \<Rightarrow> config \<Rightarrow> string \<Rightarrow> exn + string" where
  "assemble_html dumps fls cfg wrapper_path =
     (case read_text fls wrapper_path of
        Inl e \<Rightarrow> Inl e
      | Inr html0 \<Rightarrow>
          let html1 = apply_placeholders html0 cfg;
              html2 = inject_boot_config dumps html1 cfg
          in Inr (case theme cfg of
                    None \<Rightarrow> html2
                  | Some t \<Rightarrow> if t = [] then html2 else override_theme_links html2 t))"

section \<open>Section discovery\<close>

text \<open>
  A file name is the string of its bytes, as the file system holds it. Python works on the
  \<open>str\<close> that \<open>os.fsdecode\<close> makes of the bytes, a sequence of code points, and its regular
  expressions, \<open>int()\<close> and \<open>str.lower()\<close> follow the Unicode tables of the interpreter. What
  the two programs ask of them is a parameter, so that nothing below depends on a version
  of the tables:
  \<^item> \<open>fsdecode\<close> gives the code points of a name;
  \<^item> \<open>decimal\<close> gives the value of a code point that is a decimal digit (category \<open>Nd\<close>):
    these are the characters \<open>\d\<close> matches and \<open>int()\<close> reads; it is \<open>None\<close> on the others;
  \<^item> \<open>str_lower\<close> is \<open>str.lower()\<close>.
\<close>

record python =
  fsdecode :: "string \<Rightarrow> nat list"
  decimal :: "nat \<Rightarrow> nat option"
  str_lower :: "nat list \<Rightarrow> nat list"

definition is_decimal :: "python \<Rightarrow> nat \<Rightarrow> bool" where
  "is_decimal py c = (decimal py c \<noteq> None)"

text \<open>\<open>int(ds)\<close> on a run of decimal digits.\<close>

definition int_of_digits :: "python \<Rightarrow> nat list \<Rightarrow> int" where
  "int_of_digits py ds =
     foldl (\<lambda>n c. 10 * n + int (case decimal py c of None \<Rightarrow> 0 | Some d \<Rightarrow> d)) 0 ds"

text \<open>
  The sort key of \<open>discover_sections\<close>. The pattern \<open>^(\d+)[-_]\<close> matches when the name
  starts with a non-empty run of digits followed by \<open>-\<close> or \<open>_\<close>; the run is then the longest
  one, since the character after it is not a digit. The key is a pair of an \<open>int\<close> and a
  \<open>str\<close>; pairs compare by their first components and then by the second ones, and a
  \<open>str\<close> compares by code points.
\<close>

definition section_key :: "python \<Rightarrow> string \<Rightarrow> int \<times> nat list" where
  "section_key py name =
     (let s = fsdecode py name;
          ds = takeWhile (is_decimal py) s; rest = dropWhile (is_decimal py) s
      in (if ds \<noteq> [] \<and>
             (case rest of [] \<Rightarrow> False
                         | c # _ \<Rightarrow> c = of_char CHR ''-'' \<or> c = of_char CHR ''_'')
          then int_of_digits py ds else 1000000,
          str_lower py s))"

text \<open>
  \<open>discover_sections\<close>, on the names that \<open>sec_dir.glob("*.html")\<close> yields, in the order the
  directory lists them. \<open>sorted(files, key=key)\<close> is a stable sort, as \<open>sort_key\<close> is.
\<close>

definition discover_sections :: "python \<Rightarrow> string list \<Rightarrow> string list" where
  "discover_sections py names =
     map (\<lambda>name. ''sections/'' @ name) (sort_key (section_key py) names)"

text \<open>
  \<open>find_sections\<close> of \<open>cli.py\<close>: \<open>sorted\<close> on the paths the glob yields. The pattern comes
  from the configuration and may reach into directories, so a path is the list of its
  parts below \<open>sections/\<close>. \<open>Path\<close> objects compare as the lists of their parts, and a part
  compares as a \<open>str\<close>.
\<close>

definition find_sections :: "python \<Rightarrow> string list list \<Rightarrow> string list list" where
  "find_sections py paths = sort_key (map (fsdecode py)) paths"

text \<open>
  On a name made of ASCII characters every version of the tables gives the same: the code
  points are the bytes, the decimal digits are \<open>0\<close> to \<open>9\<close>, and \<open>lower\<close> turns \<open>A\<close> to \<open>Z\<close>
  into \<open>a\<close> to \<open>z\<close>. \<open>agrees_on_ascii\<close> says this of a parameter; \<open>ascii_tables\<close> is the
  parameter that knows nothing else, for examples whose names are ASCII.
\<close>

definition ascii_decimal :: "nat \<Rightarrow> nat option" where
  "ascii_decimal c = (if 48 \<le> c \<and> c \<le> 57 then Some (c - 48) else None)"

definition ascii_lower :: "nat \<Rightarrow> nat" where
  "ascii_lower c = (if 65 \<le> c \<and> c \<le> 90 then c + 32 else c)"

definition agrees_on_ascii :: "python \<Rightarrow> bool" where
  "agrees_on_ascii py \<longleftrightarrow>
     (\<forall>name. (\<forall>c \<in> set name. of_char c < (128::nat)) \<longrightarrow> fsdecode py name = map of_char name) \<and>
     (\<forall>c < 128. decimal py c = ascii_decimal c) \<and>
     (\<forall>s. (\<forall>c \<in> set s. c < 128) \<longrightarrow> str_lower py s = map ascii_lower s)"

definition ascii_tables :: python where
  "ascii_tables = \<lparr>fsdecode = map of_char, decimal = ascii_decimal, str_lower = map ascii_lower\<rparr>"

section \<open>The command \<open>build\<close> (\<open>scriptura.py\<close>)\<close>

text \<open>
  Paths are strings. \<open>a / b\<close> is \<open>b\<close> when \<open>b\<close> is absolute; \<open>resolve\<close> is taken as the
  identity (no symbolic links, no \<open>..\<close>); \<open>p.relative_to(base)\<close> raises \<open>ValueError\<close> unless
  \<open>p\<close> lies under \<open>base\<close>.
\<close>

definition pjoin :: "string \<Rightarrow> string \<Rightarrow> string" where
  "pjoin a b = (if prefix ''/'' b then b else a @ ''/'' @ b)"

definition parent :: "string \<Rightarrow> string" where
  "parent p = rev (tl (dropWhile (\<lambda>c. c \<noteq> CHR ''/'') (rev p)))"

definition relative_to :: "string \<Rightarrow> string \<Rightarrow> exn + string" where
  "relative_to p base =
     (if p = base then Inr ''.''
      else if prefix (base @ ''/'') p then Inr (drop (length base + 1) p)
      else Inl (ValueError p))"

text \<open>What the command prints, by kind of message.\<close>

datatype msg =
    WarnMissingSection string
  | WarnNoPlaywright
  | WarnHtmlStillProduced
  | InfoAssembled string
  | InfoPdfWritten string

text \<open>
  What \<open>build\<close> finds around it: the files, the names \<open>glob("*.html")\<close> yields in
  \<open>sections/\<close>, whether Playwright can be imported, and the PDF the browser prints for an
  HTML file of the file system.
\<close>

record env =
  files :: fs
  globbed :: "string list"
  playwright :: bool
  print_pdf :: "fs \<Rightarrow> string \<Rightarrow> string"

record outcome =
  status :: status
  files_after :: fs
  printed :: "msg list"

text \<open>
  Step 4 of \<open>build\<close>. A section \<open>s\<close> is looked for at \<open>base_dir / s\<close> and, when it is not
  there, beside the HTML output; \<open>section_path\<close> is the path \<open>p\<close> the loop ends up with. The
  loop returns the paths found, in order, and the warnings printed for the others.
\<close>

definition section_path :: "fs \<Rightarrow> string \<Rightarrow> string \<Rightarrow> string \<Rightarrow> string" where
  "section_path fls base_dir alt_dir s =
     (if fls (pjoin base_dir s) = None \<and> fls (pjoin alt_dir s) \<noteq> None
      then pjoin alt_dir s else pjoin base_dir s)"

fun resolve_sections :: "fs \<Rightarrow> string \<Rightarrow> string \<Rightarrow> string list \<Rightarrow> string list \<times> msg list" where
  "resolve_sections fls base_dir alt_dir [] = ([], [])"
| "resolve_sections fls base_dir alt_dir (s # ss) =
     (let p = section_path fls base_dir alt_dir s;
          (ps, ws) = resolve_sections fls base_dir alt_dir ss
      in if fls p \<noteq> None then (p # ps, ws) else (ps, WarnMissingSection s # ws))"

text \<open>The text of a file that is there.\<close>

definition text_of :: "fs \<Rightarrow> string \<Rightarrow> string" where
  "text_of fls p = or_empty (fls p)"

definition marker :: string where
  \<open>marker = ''<section id="end"''\<close>

text \<open>Step 5 of \<open>build\<close>: where the sections go.\<close>

definition insert_sections :: "string \<Rightarrow> string \<Rightarrow> string" where
  "insert_sections assembled combined =
     (if contains marker assembled
      then str_replace_count marker (combined @ ''\<newline>'' @ marker) 1 assembled
      else str_replace_count ''</body>'' (combined @ ''\<newline></body>'') 1 assembled)"

text \<open>\<open>export_pdf\<close>: the new file system and what was printed.\<close>

definition export_pdf :: "env \<Rightarrow> fs \<Rightarrow> string \<Rightarrow> string \<Rightarrow> fs \<times> msg list" where
  "export_pdf e fls html_path pdf_path =
     (if playwright e then (fls(pdf_path \<mapsto> print_pdf e fls html_path), [])
      else (fls, [WarnNoPlaywright, WarnHtmlStillProduced]))"

text \<open>
  Step 6 of \<open>build\<close>: write the HTML, report it, export the PDF and report the PDF if
  the file is there.
\<close>

definition report_pdf :: "string \<Rightarrow> fs \<Rightarrow> string \<Rightarrow> msg list \<Rightarrow> outcome" where
  "report_pdf base_dir fs2 out_pdf log =
     (if fs2 out_pdf = None then \<lparr>status = Done, files_after = fs2, printed = log\<rparr>
      else (case relative_to out_pdf base_dir of
              Inl err \<Rightarrow> \<lparr>status = Uncaught err, files_after = fs2, printed = log\<rparr>
            | Inr rel_pdf \<Rightarrow>
                \<lparr>status = Done, files_after = fs2, printed = log @ [InfoPdfWritten rel_pdf]\<rparr>))"

definition write_and_export ::
  "env \<Rightarrow> string \<Rightarrow> string \<Rightarrow> string \<Rightarrow> msg list \<Rightarrow> string \<Rightarrow> outcome" where
  "write_and_export e base_dir out_pdf out_html warnings html =
     (let fs1 = write_text (files e) out_html html
      in (case relative_to out_html base_dir of
            Inl err \<Rightarrow> \<lparr>status = Uncaught err, files_after = fs1, printed = warnings\<rparr>
          | Inr rel_html \<Rightarrow>
              (let (fs2, pdf_msgs) = export_pdf e fs1 out_html out_pdf
               in report_pdf base_dir fs2 out_pdf (warnings @ [InfoAssembled rel_html] @ pdf_msgs))))"

text \<open>
  \<open>build\<close>, from the loaded configuration on (\<open>load_config\<close> is the YAML library's work).
  \<open>base_dir\<close> is the directory of the configuration file.
\<close>

definition build ::
  "python \<Rightarrow> (string option \<Rightarrow> string) \<Rightarrow> env \<Rightarrow> string \<Rightarrow> config \<Rightarrow> string \<Rightarrow> string \<Rightarrow>
     outcome" where
  "build py dumps e base_dir cfg0 out html_out =
     (let cfg = (if or_nil (sections cfg0) = []
                 then cfg0\<lparr>sections := Some (discover_sections py (globbed e))\<rparr> else cfg0);
          cfg_injected = cfg\<lparr>sections := Some []\<rparr>
      in (case assemble_html dumps (files e) cfg_injected (pjoin base_dir ''report.html'') of
            Inl err \<Rightarrow> \<lparr>status = Uncaught err, files_after = files e, printed = []\<rparr>
          | Inr assembled \<Rightarrow>
              (let out_html = pjoin base_dir html_out;
                   (sections_abs, warnings) =
                      resolve_sections (files e) base_dir (parent out_html) (or_nil (sections cfg));
                   combined = join ''\<newline>'' (map (text_of (files e)) sections_abs)
               in write_and_export e base_dir (pjoin base_dir out) out_html warnings
                    (insert_sections assembled combined))))"

text \<open>The list \<open>cfg.sections or []\<close> that step 4 of \<open>build\<close> walks through, after step 1.\<close>

definition build_sections :: "python \<Rightarrow> env \<Rightarrow> config \<Rightarrow> string list" where
  "build_sections py e cfg0 =
     (if or_nil (sections cfg0) = [] then discover_sections py (globbed e)
      else or_nil (sections cfg0))"

section \<open>The command \<open>build\<close> (\<open>cli.py\<close>)\<close>






section \<open>The command \<open>lint\<close>\<close>

text \<open>
  BeautifulSoup is a library: its parser is not modelled. A section file comes with the
  tree the parser gives for its text, and the calls made on that tree (\<open>find\<close>, \<open>find_all\<close>,
  \<open>get_text\<close>) are functions on trees.
\<close>

datatype html = Elem string "html list" | Txt string

text \<open>The elements of a forest in document order, and its text nodes.\<close>

fun elements :: "html \<Rightarrow> html list" and elements_list :: "html list \<Rightarrow> html list" where
  "elements (Txt s) = []"
| "elements (Elem n cs) = Elem n cs # elements_list cs"
| "elements_list [] = []"
| "elements_list (h # hs) = elements h @ elements_list hs"

fun text_nodes :: "html \<Rightarrow> string list" and text_nodes_list :: "html list \<Rightarrow> string list" where
  "text_nodes (Txt s) = [s]"
| "text_nodes (Elem n cs) = text_nodes_list cs"
| "text_nodes_list [] = []"
| "text_nodes_list (h # hs) = text_nodes h @ text_nodes_list hs"

fun tag :: "html \<Rightarrow> string" where
  "tag (Elem n cs) = n"
| "tag (Txt s) = []"

fun children :: "html \<Rightarrow> html list" where
  "children (Elem n cs) = cs"
| "children (Txt s) = []"

text \<open>\<open>node.find(name)\<close>: the first element of that name below the node.\<close>

definition find_tag :: "string \<Rightarrow> html list \<Rightarrow> html option" where
  "find_tag name forest = find (\<lambda>h. tag h = name) (elements_list forest)"

text \<open>\<open>str.strip()\<close> on ASCII white space, and \<open>get_text(strip=True)\<close>.\<close>

definition is_space :: "char \<Rightarrow> bool" where
  "is_space c = (c = CHR '' '' \<or> (CHR 0x09 \<le> c \<and> c \<le> CHR 0x0D) \<or> (CHR 0x1C \<le> c \<and> c \<le> CHR 0x1F))"

definition strip :: "string \<Rightarrow> string" where
  "strip s = rev (dropWhile is_space (rev (dropWhile is_space s)))"

definition get_text_strip :: "html \<Rightarrow> string" where
  "get_text_strip h = concat (map strip (text_nodes h))"

text \<open>A file of \<open>sections/\<close>: its name, its text and the tree of its text.\<close>

record section_file =
  fname :: string
  ftext :: string
  soup :: "html list"

datatype lint_error =
    NoSectionsDir
  | SectionsEmpty
  | NoSection string
  | NoH1 string
  | EmptySection string

datatype lint_msg = WarnOrder | ErrLine lint_error | LintPassed

record lint_outcome =
  lint_status :: status
  lint_errors :: "lint_error list"
  lint_printed :: "lint_msg list"

text \<open>
  The body of the loop over the files in \<open>lint\<close> of \<open>scriptura.py\<close>: the errors it appends for
  one file, with BeautifulSoup (\<open>use_bs4\<close>) and without.
\<close>

definition check_file :: "bool \<Rightarrow> section_file \<Rightarrow> lint_error list" where
  "check_file use_bs4 f =
     (if use_bs4
      then (case find_tag ''section'' (soup f) of
              None \<Rightarrow> [NoSection (fname f)]
            | Some sect \<Rightarrow>
                (if find_tag ''h1'' (children sect) = None then [NoH1 (fname f)] else []) @
                (if get_text_strip sect = [] then [EmptySection (fname f)] else []))
      else (if \<not> contains ''<section'' (ftext f) then [NoSection (fname f)] else []) @
           (if \<not> contains ''<h1'' (ftext f) then [NoH1 (fname f)] else []))"

text \<open>
  \<open>lint\<close> of \<open>scriptura.py\<close>. The directory \<open>sections/\<close> is \<open>None\<close> when it does not exist, else
  the files \<open>glob("*.html")\<close> yields, in the order of the directory. \<open>sorted(files)\<close>
  compares paths of one directory, that is their names as \<open>str\<close>.
\<close>

definition lint_end :: "lint_error list \<Rightarrow> lint_msg list \<Rightarrow> lint_outcome" where
  "lint_end errors warnings =
     (if errors \<noteq> []
      then \<lparr>lint_status = SysExit 1, lint_errors = errors,
            lint_printed = warnings @ map ErrLine errors\<rparr>
      else \<lparr>lint_status = Done, lint_errors = errors, lint_printed = warnings @ [LintPassed]\<rparr>)"

definition lint :: "python \<Rightarrow> bool \<Rightarrow> section_file list option \<Rightarrow> lint_outcome" where
  "lint py use_bs4 sec_dir =
     (case sec_dir of
        None \<Rightarrow> lint_end [NoSectionsDir] []
      | Some fs \<Rightarrow>
          (let errors0 = (if fs = [] then [SectionsEmpty] else []);
               ordered = discover_sections py (map fname fs);
               warnings = (if map (\<lambda>n. ''sections/'' @ n) (sort_key (fsdecode py) (map fname fs))
                              \<noteq> ordered
                           then [WarnOrder] else [])
           in lint_end (errors0 @ concat (map (check_file use_bs4) fs)) warnings))"

text \<open>
  \<open>lint\<close> of \<open>cli.py\<close>. Every message it prints adds one to \<open>errors\<close>, so the counter is the
  number of messages. A file comes with its name and the tree of its text, \<open>None\<close> when
  \<open>BeautifulSoup(html, "lxml")\<close> raised.
\<close>

datatype cli_lint_msg =
    CssMissing string
  | ParseError string
  | NoH1Heading string
  | HierarchySkip string

definition must_css :: "string list" where
  "must_css = [''general.css'', ''numbering.css'', ''footer.css'', ''cover.css'', ''last-page.css'']"

definition heading_level :: "string \<Rightarrow> nat" where
  "heading_level h = (if h = ''h1'' then 1 else if h = ''h2'' then 2 else if h = ''h3'' then 3 else 4)"

text \<open>The loop that looks for a skipped level; \<open>prev\<close> is the variable \<open>last\<close> of the source.\<close>

fun skips_level :: "nat \<Rightarrow> nat list \<Rightarrow> bool" where
  "skips_level prev [] = False"
| "skips_level prev (cur # rest) =
     (if prev \<noteq> 0 \<and> cur > prev + 1 then True else skips_level cur rest)"

definition cli_check_file :: "string \<times> html list option \<Rightarrow> cli_lint_msg list" where
  "cli_check_file f =
     (case snd f of
        None \<Rightarrow> [ParseError (fst f)]
      | Some tree \<Rightarrow>
          (let hs = map tag (filter (\<lambda>h. tag h \<in> {''h1'', ''h2'', ''h3'', ''h4''}) (elements_list tree))
           in (if ''h1'' \<notin> set hs then [NoH1Heading (fst f)] else []) @
              (if skips_level 0 (map heading_level hs) then [HierarchySkip (fst f)] else [])))"

definition cli_lint_msgs ::
  "python \<Rightarrow> (string \<Rightarrow> bool) \<Rightarrow> (string \<times> html list option) list \<Rightarrow> cli_lint_msg list" where
  "cli_lint_msgs py css_exists fs =
     map CssMissing (filter (\<lambda>css. \<not> css_exists css) must_css) @
     concat (map cli_check_file (sort_key (\<lambda>f. fsdecode py (fst f)) fs))"

definition cli_lint ::
  "python \<Rightarrow> (string \<Rightarrow> bool) \<Rightarrow> (string \<times> html list option) list \<Rightarrow> status" where
  "cli_lint py css_exists fs =
     (if length (cli_lint_msgs py css_exists fs) \<noteq> 0 then SysExit 1 else Done)"

section \<open>The command \<open>init\<close>\<close>

text \<open>
  The texts of the scaffold, as the bytes written to the files (UTF-8).
\<close>

definition SCAFFOLD_REPORT_HTML :: string where
  \<open>SCAFFOLD_REPORT_HTML = concat
     [''<!doctype html>\<newline>'',
      ''<html lang="tr">\<newline>'',
      ''<head>\<newline>'',
      ''  <meta charset="utf-8" />\<newline>'',
      ''  <title>[TITLE]</title>\<newline>'',
      ''\<newline>'',
      ''  <link rel="stylesheet" href="style/general.css" />\<newline>'',
      ''  <link rel="stylesheet" href="style/numbering.css" />\<newline>'',
      ''  <link rel="stylesheet" href="style/footer.css" />\<newline>'',
      ''  <link rel="stylesheet" href="style/cover.css" />\<newline>'',
      ''  <link rel="stylesheet" href="style/last-page.css" />\<newline>'',
      ''\<newline>'',
      ''  <script>\<newline>'',
      (''    // Paged.js ba'' @ [CHR 0xC5, CHR 0x9F] @ ''lamadan '' @ [CHR 0xC3, CHR 0xB6] @ ''nce sections/*.html dosyalar'' @ [CHR 0xC4, CHR 0xB1] @ ''n'' @ [CHR 0xC4, CHR 0xB1] @ '' g'' @ [CHR 0xC3, CHR 0xB6] @ ''vdeye ekle\<newline>''),
      ''    window.PagedConfig = {\<newline>'',
      ''      before: async () => {\<newline>'',
      ''        const cfg = window.__CONFIG__ || {};\<newline>'',
      ''        const t = document.getElementById("title"); if (t) t.textContent = cfg.title || "";\<newline>'',
      ''        const s = document.querySelector(".subtitle"); if (s) s.textContent = cfg.subtitle || "";\<newline>'',
      ''        const p = document.querySelector(".prepared"); if (p) p.textContent = cfg.prepared || "";\<newline>'',
      ''        const k = document.querySelector(".kicker"); if (k) k.textContent = cfg.kicker || "";\<newline>'',
      ''        for (const file of (cfg.sections || [])) {\<newline>'',
      ''          try {\<newline>'',
      ''            const res = await fetch(file);\<newline>'',
      ''            if (!res.ok) { console.warn("Missing section:", file); continue; }\<newline>'',
      ''            const html = await res.text();\<newline>'',
      ''            const host = document.createElement("div");\<newline>'',
      ''            host.innerHTML = html;\<newline>'',
      ''            document.body.insertBefore(host, document.getElementById("end"));\<newline>'',
      ''          } catch (e) {\<newline>'',
      ''            console.warn("Fetch error for", file, e);\<newline>'',
      ''          }\<newline>'',
      ''        }\<newline>'',
      ''      }\<newline>'',
      ''    };\<newline>'',
      ''  </script>\<newline>'',
      ''  <script src="https://unpkg.com/pagedjs/dist/paged.polyfill.js"></script>\<newline>'',
      ''</head>\<newline>'',
      ''<body>\<newline>'',
      ''  <section class="cover unnumbered">\<newline>'',
      ''    <div class="title-section">\<newline>'',
      ''      <div class="kicker">[KICKER]</div>\<newline>'',
      ''      <h1 id="title">[TITLE]</h1>\<newline>'',
      ''      <p class="subtitle">[SUBTITLE]</p>\<newline>'',
      ''      <div class="prepared">[PREPARED]</div>\<newline>'',
      ''    </div>\<newline>'',
      ''  </section>\<newline>'',
      ''\<newline>'',
      ''  <section id="end" class="last-page unnumbered">\<newline>'',
      (''    <h1>Te'' @ [CHR 0xC5, CHR 0x9F] @ ''ekk'' @ [CHR 0xC3, CHR 0xBC] @ ''rler</h1>\<newline>''),
      (''    <p>Okudu'' @ [CHR 0xC4, CHR 0x9F] @ ''unuz i'' @ [CHR 0xC3, CHR 0xA7] @ ''in te'' @ [CHR 0xC5, CHR 0x9F] @ ''ekk'' @ [CHR 0xC3, CHR 0xBC] @ ''rler.</p>\<newline>''),
      ''  </section>\<newline>'',
      ''</body>\<newline>'',
      ''</html>\<newline>'']\<close>

definition SCAFFOLD_CONFIG :: string where
  \<open>SCAFFOLD_CONFIG = concat
     [''title: Deneme Raporu\<newline>'',
      ''subtitle: Modular report with Paged.js\<newline>'',
      (''prepared: "Yazar '' @ [CHR 0xE2, CHR 0x80, CHR 0x94] @ '' 2025-08-18"\<newline>''),
      ''kicker: Internal Report\<newline>'',
      (''# sections:  # bo'' @ [CHR 0xC5, CHR 0x9F] @ ''sa sections/*.html otomatik ke'' @ [CHR 0xC5, CHR 0x9F] @ ''fedilir\<newline>''),
      ''#   - sections/01-introduction.html\<newline>'',
      ''# theme:\<newline>'',
      ''#   general: "https://.../general.css"\<newline>'',
      ''#   numbering: "https://.../numbering.css"\<newline>'',
      ''#   footer: "https://.../footer.css"\<newline>'',
      ''#   cover: "https://.../cover.css"\<newline>'',
      ''#   last: "https://.../last-page.css"\<newline>'']\<close>

definition SAMPLE_introduction :: string where
  \<open>SAMPLE_introduction = concat
     [''<section class="page-break">\<newline>'',
      ''  <h1>Introduction</h1>\<newline>'',
      ''  <p>Project goals, scope and context.</p>\<newline>'',
      ''</section>\<newline>'']\<close>

definition SAMPLE_methodology :: string where
  \<open>SAMPLE_methodology = concat
     [''<section class="page-break">\<newline>'',
      ''  <h1>Methodology</h1>\<newline>'',
      ''  <p>Approach, data and tools.</p>\<newline>'',
      ''</section>\<newline>'']\<close>

definition SAMPLE_results :: string where
  \<open>SAMPLE_results = concat
     [''<section class="page-break">\<newline>'',
      ''  <h1>Results</h1>\<newline>'',
      ''  <p>Key findings and figures.</p>\<newline>'',
      ''</section>\<newline>'']\<close>

definition GITIGNORE :: string where
  "GITIGNORE = ''build/\<newline>node_modules/\<newline>*.tmp.html\<newline>.DS_Store\<newline>''"

text \<open>\<open>SAMPLE_SECTIONS\<close>, in the order of the dictionary literal.\<close>

definition SAMPLE_SECTIONS :: "(string \<times> string) list" where
  "SAMPLE_SECTIONS =
     [(''01-introduction.html'', SAMPLE_introduction),
      (''02-methodology.html'', SAMPLE_methodology),
      (''03-results.html'', SAMPLE_results)]"

text \<open>
  The target directory is seen from inside: a map from the paths below it to what is
  there, a directory or a file with its text. The target itself is \<open>None\<close> when it does
  not exist.
\<close>

datatype entry = Dir | File string

type_synonym tree = "string \<rightharpoonup> entry"

definition mkdir :: "tree \<Rightarrow> string \<Rightarrow> tree" where
  "mkdir t p = t(p \<mapsto> Dir)"

definition write_file :: "tree \<Rightarrow> string \<Rightarrow> string \<Rightarrow> tree" where
  "write_file t p s = t(p \<mapsto> File s)"

text \<open>The directories and files \<open>init\<close> of \<open>scriptura.py\<close> creates, in its order.\<close>

definition write_scaffold :: "tree \<Rightarrow> tree" where
  "write_scaffold t0 =
     (let t1 = foldl mkdir t0 [''sections'', ''style'', ''images'', ''diagrams'', ''build''];
          t2 = write_file t1 ''report.html'' SCAFFOLD_REPORT_HTML;
          t3 = write_file t2 ''config.yaml'' SCAFFOLD_CONFIG;
          t4 = foldl (\<lambda>t (name, content). write_file t (''sections/'' @ name) content) t3
                 SAMPLE_SECTIONS
      in write_file t4 ''.gitignore'' GITIGNORE)"

text \<open>
  What the \<open>git\<close> calls meet: no \<open>git\<close> program, a directory inside a work tree, or a
  directory outside any repository.
\<close>

datatype git_state = GitMissing | InsideWorkTree | OutsideRepository

datatype init_msg = ErrTargetExists | InfoScaffoldCreated

record init_outcome =
  init_status :: status
  target_after :: "tree option"
  init_printed :: "init_msg list"

text \<open>
  \<open>init\<close> of \<open>scriptura.py\<close>. \<open>SystemExit\<close> with a message prints it and ends with status 1;
  \<open>shutil.rmtree\<close> removes the target; \<open>subprocess.run\<close> raises \<open>FileNotFoundError\<close> when there
  is no \<open>git\<close> program, and \<open>git init\<close> creates \<open>.git\<close>.
\<close>

definition init :: "tree option \<Rightarrow> bool \<Rightarrow> bool \<Rightarrow> git_state \<Rightarrow> init_outcome" where
  "init target force git gs =
     (if target \<noteq> None \<and> \<not> force
      then \<lparr>init_status = SysExit 1, target_after = target, init_printed = [ErrTargetExists]\<rparr>
      else
        (let removed = (if target \<noteq> None \<and> force then None else target);
             t = write_scaffold (case removed of None \<Rightarrow> Map.empty | Some t0 \<Rightarrow> t0)
         in if git
            then (case gs of
                    GitMissing \<Rightarrow>
                      \<lparr>init_status = Uncaught (FileNotFoundError ''git''), target_after = Some t,
                       init_printed = []\<rparr>
                  | InsideWorkTree \<Rightarrow>
                      \<lparr>init_status = Done, target_after = Some t,
                       init_printed = [InfoScaffoldCreated]\<rparr>
                  | OutsideRepository \<Rightarrow>
                      \<lparr>init_status = Done, target_after = Some (mkdir t ''.git''),
                       init_printed = [InfoScaffoldCreated]\<rparr>)
            else \<lparr>init_status = Done, target_after = Some t,
                  init_printed = [InfoScaffoldCreated]\<rparr>))"

text \<open>
  \<open>init\<close> of \<open>cli.py\<close>, which has no \<open>--force\<close> option. The text \<open>yaml.safe_dump\<close> gives for the
  configuration is the parameter \<open>dumped\<close>; \<open>os.system\<close> does not raise when there is no \<open>git\<close>
  program, and the test for a work tree runs in the current directory.
\<close>

definition cli_init :: "tree option \<Rightarrow> string \<Rightarrow> git_state \<Rightarrow> init_outcome" where
  \<open>cli_init target dumped gs =
     (if target \<noteq> None
      then \<lparr>init_status = SysExit 1, target_after = target, init_printed = [ErrTargetExists]\<rparr>
      else
        (let t1 = foldl mkdir Map.empty [''sections'', ''images'', ''diagrams'', ''style''];
             t2 = write_file t1 ''sections/01-introduction.html''
                    ''<section><h1>Introduction</h1><p>Start here.</p></section>'';
             t3 = write_file t2 ''config.yaml'' dumped;
             t4 = (if gs = OutsideRepository then mkdir t3 ''.git'' else t3)
         in \<lparr>init_status = Done, target_after = Some t4, init_printed = [InfoScaffoldCreated]\<rparr>))\<close>

section \<open>Properties of the string operations\<close>

lemma contains_iff_sublist: "contains sub s \<longleftrightarrow> sublist sub s"
  by (induction s) (auto simp: sublist_Cons_right)

lemma str_replace_absent: "\<not> contains old s \<Longrightarrow> str_replace old new s = s"
proof (induction s)
  case Nil
  then show ?case by simp
next
  case (Cons c cs)
  then show ?case by (cases "old = []") auto
qed

lemma str_replace_count_absent:
  "\<not> contains old s \<Longrightarrow> str_replace_count old new n s = s"
proof (induction s arbitrary: n)
  case Nil
  then show ?case by (cases n) auto
next
  case (Cons c cs)
  then show ?case by (cases n; cases "old = []") auto
qed

lemma prefix_of_short_append:
  "prefix xs (ys @ zs) \<Longrightarrow> length xs \<le> length ys \<Longrightarrow> prefix xs ys"
  by (auto simp: prefix_append)

text \<open>
  The first occurrence is the one replaced: when \<open>old\<close> does not start anywhere in \<open>pre\<close>,
  the text \<open>pre @ old @ post\<close> keeps \<open>pre\<close>, and the replacement goes on in \<open>post\<close> with one
  replacement less.
\<close>

lemma str_replace_count_first:
  assumes "old \<noteq> []" "\<not> contains old (pre @ butlast old)"
  shows "str_replace_count old new (Suc n) (pre @ old @ post) =
           pre @ new @ str_replace_count old new n post"
  using assms(2)
proof (induction pre)
  case Nil
  obtain c cs where old: "old = c # cs" using assms(1) by (cases old) auto
  have "str_replace_count old new (Suc n) (c # cs @ post) =
          new @ str_replace_count old new n (drop (length old) (c # cs @ post))"
    using assms(1) by (simp add: old)
  then show ?case by (simp add: old)
next
  case (Cons a pre)
  have np: "\<not> prefix old (a # pre @ butlast old)" and nc: "\<not> contains old (pre @ butlast old)"
    using Cons.prems by auto
  have "\<not> prefix old (a # pre @ old @ post)"
  proof
    assume "prefix old (a # pre @ old @ post)"
    moreover have "a # pre @ old @ post = (a # pre @ butlast old) @ [last old] @ post"
      using append_butlast_last_id [OF assms(1)] by (metis append.assoc append_Cons)
    ultimately have "prefix old ((a # pre @ butlast old) @ [last old] @ post)"
      by simp
    then have "prefix old (a # pre @ butlast old)"
      by (rule prefix_of_short_append) (use assms(1) in simp)
    with np show False by simp
  qed
  then show ?case using Cons.IH [OF nc] assms(1) by simp
qed

section \<open>Placeholder substitution on text without tokens\<close>

lemma foldl_replace_absent:
  "\<forall>(t, v) \<in> set ps. \<not> contains (f t) s \<Longrightarrow>
     foldl (\<lambda>h (t, v). str_replace (f t) (g v) h) s ps = s"
  by (induction ps) (auto simp: str_replace_absent)

lemma replace_checked_absent:
  assumes "\<not> contains t s" "v \<noteq> Other True"
  shows "replace_checked t (or_empty_str v) s = Inr s"
proof (cases v)
  case (Str x)
  then show ?thesis
    using assms(1) by (simp add: replace_checked_def or_empty_str_def str_replace_absent)
next
  case (Other b)
  then have "b = False" using assms(2) by simp
  then show ?thesis
    using Other assms(1) by (simp add: replace_checked_def or_empty_str_def str_replace_absent)
qed

lemma foldl_checked_absent:
  "\<forall>(t, k) \<in> set ps. \<not> contains t s \<and> attr k \<noteq> Other True \<Longrightarrow>
     foldl (\<lambda>acc (token, key).
              case acc of Inl e \<Rightarrow> Inl e
                        | Inr h \<Rightarrow> replace_checked token (or_empty_str (attr key)) h)
       (Inr s) ps = Inr s"
  by (induction ps) (auto simp: replace_checked_absent)

lemma foldl_checked_raised:
  "foldl (\<lambda>acc (token, key).
              case acc of Inl e \<Rightarrow> Inl e
                        | Inr h \<Rightarrow> replace_checked token (or_empty_str (attr key)) h)
       (Inl e) ps = Inl e"
  by (induction ps) auto

lemma replace_checked_cases:
  "replace_checked t (or_empty_str v) s =
     (if v = Other True then Inl TypeError
      else Inr (str_replace t (case v of Str x \<Rightarrow> x | Other b \<Rightarrow> []) s))"
  by (cases v) (auto simp: replace_checked_def or_empty_str_def)

lemma foldl_checked_type_error:
  "\<exists>(t, k) \<in> set ps. attr k = Other True \<Longrightarrow>
     foldl (\<lambda>acc (token, key).
              case acc of Inl e \<Rightarrow> Inl e
                        | Inr h \<Rightarrow> replace_checked token (or_empty_str (attr key)) h)
       (Inr s) ps = Inl TypeError"
proof (induction ps arbitrary: s)
  case Nil
  then show ?case by simp
next
  case (Cons p ps)
  obtain t k where p: "p = (t, k)" by (cases p)
  show ?case
  proof (cases "attr k = Other True")
    case True
    then show ?thesis
      by (simp add: p replace_checked_cases foldl_checked_raised)
  next
    case False
    then have "\<exists>(t, k) \<in> set ps. attr k = Other True"
      using Cons.prems p by auto
    then show ?thesis
      using Cons.IH False by (simp add: p replace_checked_cases)
  qed
qed

text \<open>
  On a configuration that keeps to the declaration, the general function is the one
  \<open>build\<close> is modelled with.
\<close>

lemma apply_placeholders_any_declared:
  "apply_placeholders_any html (declared cfg) = Inr (apply_placeholders html cfg)"
  by (simp add: apply_placeholders_any_def apply_placeholders_def PLACEHOLDER_NAMES_def
        PLACEHOLDERS_def declared_def replace_checked_def or_empty_str_def or_empty_def
      split: option.splits)

text \<open>
  Claim C7, as amended. Let a text contain none of the placeholder tokens.
  \<open>apply_placeholders\<close> of \<open>scriptura.py\<close> returns it unchanged when each of the four values
  \<open>title\<close>, \<open>subtitle\<close>, \<open>prepared\<close> and \<open>kicker\<close> is a \<open>str\<close> or is false; the result being the
  text itself, a second substitution is the first one again. When one of the four values is
  true and not a \<open>str\<close>, it raises \<open>TypeError\<close>, on this text as on every other. On a
  configuration that keeps to the declared types it returns the text unchanged, once or
  twice. \<open>substitute_placeholders\<close> of \<open>cli.py\<close>, which makes a string of every value with
  \<open>str()\<close>, returns a text without the bracketed keys of its mapping unchanged, once or
  twice, whatever the values are.
\<close>

theorem placeholders_without_tokens:
  "((\<forall>token \<in> fst ` set PLACEHOLDER_NAMES. \<not> contains token html) \<and>
    (\<forall>key \<in> snd ` set PLACEHOLDER_NAMES. attr key \<noteq> Other True) \<longrightarrow>
      apply_placeholders_any html attr = Inr html) \<and>
   ((\<exists>key \<in> snd ` set PLACEHOLDER_NAMES. attr key = Other True) \<longrightarrow>
      apply_placeholders_any html attr = Inl TypeError) \<and>
   ((\<forall>token \<in> fst ` set PLACEHOLDERS. \<not> contains token html) \<longrightarrow>
      apply_placeholders html cfg = html \<and>
      apply_placeholders (apply_placeholders html cfg) cfg = apply_placeholders html cfg) \<and>
   ((\<forall>key \<in> fst ` set (placeholder_mapping meta extra). \<not> contains (''['' @ key @ '']'') doc) \<longrightarrow>
      substitute_placeholders doc meta extra = doc \<and>
      substitute_placeholders (substitute_placeholders doc meta extra) meta extra =
        substitute_placeholders doc meta extra)"
proof -
  have a: "apply_placeholders_any html attr = Inr html"
    if "\<forall>token \<in> fst ` set PLACEHOLDER_NAMES. \<not> contains token html"
      "\<forall>key \<in> snd ` set PLACEHOLDER_NAMES. attr key \<noteq> Other True"
    unfolding apply_placeholders_any_def
    using that by (intro foldl_checked_absent) auto
  have b: "apply_placeholders_any html attr = Inl TypeError"
    if "\<exists>key \<in> snd ` set PLACEHOLDER_NAMES. attr key = Other True"
    unfolding apply_placeholders_any_def
    using that by (intro foldl_checked_type_error) auto
  have c: "apply_placeholders html cfg = html"
    if "\<forall>token \<in> fst ` set PLACEHOLDERS. \<not> contains token html"
    unfolding apply_placeholders_def
    using that foldl_replace_absent [of PLACEHOLDERS "\<lambda>t. t" html "\<lambda>k. or_empty (k cfg)"]
    by (auto simp: case_prod_unfold)
  have d: "substitute_placeholders doc meta extra = doc"
    if "\<forall>key \<in> fst ` set (placeholder_mapping meta extra). \<not> contains (''['' @ key @ '']'') doc"
    unfolding substitute_placeholders_def
    using that
      foldl_replace_absent [of "placeholder_mapping meta extra" "\<lambda>k. ''['' @ k @ '']''" doc "\<lambda>v. v"]
    by (auto simp: case_prod_unfold)
  show ?thesis using a b c d by simp
qed

theorem placeholders_without_tokens_witness:
  "\<not> contains ''[TITLE]'' ''<p>[DATE]</p>'' \<and> \<not> contains ''[SUBTITLE]'' ''<p>[DATE]</p>'' \<and>
   \<not> contains ''[PREPARED]'' ''<p>[DATE]</p>'' \<and> \<not> contains ''[KICKER]'' ''<p>[DATE]</p>'' \<and>
   apply_placeholders_any ''<p>[DATE]</p>''
     (\<lambda>key. if key = ''title'' then Str ''T'' else if key = ''subtitle'' then Other False else Str [])
     = Inr ''<p>[DATE]</p>'' \<and>
   apply_placeholders_any ''<p>[DATE]</p>''
     (\<lambda>key. if key = ''kicker'' then Other True else Str ''T'') = Inl TypeError \<and>
   apply_placeholders ''<p>[DATE]</p>''
     \<lparr>title = Some ''T'', subtitle = None, prepared = None, kicker = None,
      sections = None, theme = None\<rparr>
     = ''<p>[DATE]</p>'' \<and>
   fst ` set (placeholder_mapping [(''title'', ''T'')] (Some [(''COMPANY'', ''Acme'')])) =
     {''TITLE'', ''SUBTITLE'', ''AUTHOR'', ''DATE'', ''COMPANY''} \<and>
   \<not> contains ''[TITLE]'' ''<p>[KICKER]</p>'' \<and> \<not> contains ''[SUBTITLE]'' ''<p>[KICKER]</p>'' \<and>
   \<not> contains ''[AUTHOR]'' ''<p>[KICKER]</p>'' \<and> \<not> contains ''[DATE]'' ''<p>[KICKER]</p>'' \<and>
   \<not> contains ''[COMPANY]'' ''<p>[KICKER]</p>'' \<and>
   substitute_placeholders ''<p>[KICKER]</p>'' [(''title'', ''T'')] (Some [(''COMPANY'', ''Acme'')])
     = ''<p>[KICKER]</p>''"
proof -
  let ?ok = "\<lambda>key. if key = ''title'' then Str ''T'' else if key = ''subtitle'' then Other False
                   else Str []"
  let ?bad = "\<lambda>key. if key = ''kicker'' then Other True else Str ''T''"
  let ?cfg = "\<lparr>title = Some ''T'', subtitle = None, prepared = None, kicker = None,
            sections = None, theme = None\<rparr>"
  have h1: "\<forall>token \<in> fst ` set PLACEHOLDER_NAMES. \<not> contains token ''<p>[DATE]</p>''"
    and h1': "\<forall>token \<in> fst ` set PLACEHOLDERS. \<not> contains token ''<p>[DATE]</p>''"
    by (simp_all add: PLACEHOLDER_NAMES_def PLACEHOLDERS_def)
  have h2: "\<forall>key \<in> snd ` set PLACEHOLDER_NAMES. ?ok key \<noteq> Other True"
    and h3: "\<exists>key \<in> snd ` set PLACEHOLDER_NAMES. ?bad key = Other True"
    by (simp_all add: PLACEHOLDER_NAMES_def)
  have h4: "\<forall>key \<in> fst ` set (placeholder_mapping [(''title'', ''T'')] (Some [(''COMPANY'', ''Acme'')])).
      \<not> contains (''['' @ key @ '']'') ''<p>[KICKER]</p>''"
    by (simp add: placeholder_mapping_def dict_update_def dict_get_or_empty_def)
  have keys: "fst ` set (placeholder_mapping [(''title'', ''T'')] (Some [(''COMPANY'', ''Acme'')])) =
     {''TITLE'', ''SUBTITLE'', ''AUTHOR'', ''DATE'', ''COMPANY''}"
    by (simp add: placeholder_mapping_def dict_update_def dict_get_or_empty_def)
  have r1: "apply_placeholders_any ''<p>[DATE]</p>'' ?ok = Inr ''<p>[DATE]</p>'' \<and>
      apply_placeholders ''<p>[DATE]</p>'' ?cfg = ''<p>[DATE]</p>'' \<and>
      substitute_placeholders ''<p>[KICKER]</p>'' [(''title'', ''T'')] (Some [(''COMPANY'', ''Acme'')])
        = ''<p>[KICKER]</p>''"
    using h1 h1' h2 h4
      placeholders_without_tokens
        [of "''<p>[DATE]</p>''" ?ok ?cfg "[(''title'', ''T'')]" "Some [(''COMPANY'', ''Acme'')]"
            "''<p>[KICKER]</p>''"]
    by blast
  have r2: "apply_placeholders_any ''<p>[DATE]</p>'' ?bad = Inl TypeError"
    using h3
      placeholders_without_tokens
        [of "''<p>[DATE]</p>''" ?bad ?cfg "[(''title'', ''T'')]" "Some [(''COMPANY'', ''Acme'')]"
            "''<p>[KICKER]</p>''"]
    by blast
  show ?thesis using r1 r2 keys by simp
qed

text \<open>
  The claim as stated holds for any configuration values. With \<open>title: 2025\<close> in the YAML
  file the title is a number, true and not a \<open>str\<close>: \<open>apply_placeholders\<close> raises \<open>TypeError\<close>
  on a text that has no token, instead of returning it.
\<close>

theorem placeholders_type_error_counterexample:
  "\<not> contains ''[TITLE]'' ''<p>Report</p>'' \<and> \<not> contains ''[SUBTITLE]'' ''<p>Report</p>'' \<and>
   \<not> contains ''[PREPARED]'' ''<p>Report</p>'' \<and> \<not> contains ''[KICKER]'' ''<p>Report</p>'' \<and>
   apply_placeholders_any ''<p>Report</p>''
     (\<lambda>key. if key = ''title'' then Other True else Str []) = Inl TypeError"
  by (simp add: apply_placeholders_any_def PLACEHOLDER_NAMES_def replace_checked_def
        or_empty_str_def)

section \<open>What \<open>build\<close> writes and prints\<close>

lemmas build_defs = build_def assemble_html_def read_text_def write_text_def apply_placeholders_def
  PLACEHOLDERS_def inject_boot_config_def boot_def json_dumps_list_def discover_sections_def
  section_key_def pjoin_def parent_def relative_to_def export_pdf_def report_pdf_def
  write_and_export_def insert_sections_def marker_def text_of_def or_empty_def or_nil_def
  section_path_def Let_def
  override_theme_links_def override_step_def theme_mapping_def href_def py_or_def

lemma or_nil_simps [simp]: "or_nil None = []" "or_nil (Some xs) = xs"
  by (simp_all add: or_nil_def)

lemma relative_to_pjoin: "\<not> prefix ''/'' r \<Longrightarrow> relative_to (pjoin base r) base = Inr r"
  by (simp add: relative_to_def pjoin_def)

lemma apply_placeholders_sections:
  "apply_placeholders html (cfg\<lparr>sections := ss\<rparr>) = apply_placeholders html cfg"
  by (simp add: apply_placeholders_def PLACEHOLDERS_def)

text \<open>
  With the wrapper read and both output paths relative to the report directory, \<open>build\<close>
  ends normally: this is its whole outcome.
\<close>

lemma build_outcome:
  assumes "assemble_html dumps (files e) (cfg0\<lparr>sections := Some []\<rparr>) (pjoin base_dir ''report.html'')
             = Inr assembled"
    and "\<not> prefix ''/'' html_out" and "\<not> prefix ''/'' out"
  shows "build py dumps e base_dir cfg0 out html_out =
     (let out_html = pjoin base_dir html_out;
          out_pdf = pjoin base_dir out;
          r = resolve_sections (files e) base_dir (parent out_html) (build_sections py e cfg0);
          html = insert_sections assembled (join ''\<newline>'' (map (text_of (files e)) (fst r)));
          x = export_pdf e ((files e)(out_html \<mapsto> html)) out_html out_pdf
      in \<lparr>status = Done, files_after = fst x,
          printed = snd r @ [InfoAssembled html_out] @ snd x @
            (if fst x out_pdf = None then [] else [InfoPdfWritten out])\<rparr>)"
  using assms
  by (cases "or_nil (sections cfg0) = []")
     (simp_all add: build_def build_sections_def write_and_export_def report_pdf_def write_text_def
        relative_to_pjoin Let_def case_prod_beta)



section \<open>Where the sections go\<close>

text \<open>
  Claim C1, as amended. \<open>build\<close> writes \<open>insert_sections assembled combined\<close>, where
  \<open>assembled\<close> is the wrapper after placeholder substitution, snapshot injection and theme
  override, and \<open>combined\<close> the section texts in their order, joined by newlines. When
  \<open>assembled\<close> contains the end marker, the joined texts and one newline go in once,
  immediately before the first occurrence of the marker (no occurrence starts in \<open>pre\<close>);
  when it contains no marker but a closing body tag, they go the same way before the first
  \<open></body>\<close>; when it contains neither, nothing is inserted and the text is unchanged.
\<close>

theorem insert_sections_places:
  "(assembled = pre @ marker @ post \<and> \<not> contains marker (pre @ butlast marker) \<longrightarrow>
      insert_sections assembled (join ''\<newline>'' texts) =
        pre @ join ''\<newline>'' texts @ ''\<newline>'' @ marker @ post) \<and>
   (\<not> contains marker assembled \<and> assembled = pre @ ''</body>'' @ post \<and>
    \<not> contains ''</body>'' (pre @ butlast ''</body>'') \<longrightarrow>
      insert_sections assembled (join ''\<newline>'' texts) =
        pre @ join ''\<newline>'' texts @ ''\<newline>'' @ ''</body>'' @ post) \<and>
   (\<not> contains marker assembled \<and> \<not> contains ''</body>'' assembled \<longrightarrow>
      insert_sections assembled (join ''\<newline>'' texts) = assembled)"
proof -
  have m: "marker \<noteq> []" by (simp add: marker_def)
  have a: "insert_sections (pre @ marker @ post) c = pre @ c @ ''\<newline>'' @ marker @ post"
    if "\<not> contains marker (pre @ butlast marker)" for c
  proof -
    have "contains marker (pre @ marker @ post)"
      by (simp add: contains_iff_sublist)
    then show ?thesis
      using str_replace_count_first [OF m that, of "c @ ''\<newline>'' @ marker" 0 post]
      by (simp add: insert_sections_def)
  qed
  have b: "insert_sections (pre @ ''</body>'' @ post) c = pre @ c @ ''\<newline>'' @ ''</body>'' @ post"
    if "\<not> contains marker (pre @ ''</body>'' @ post)" "\<not> contains ''</body>'' (pre @ butlast ''</body>'')" for c
    using that(1) str_replace_count_first [OF _ that(2), of "c @ ''\<newline></body>''" 0 post]
    by (simp add: insert_sections_def)
  have c: "insert_sections assembled c = assembled"
    if "\<not> contains marker assembled" "\<not> contains ''</body>'' assembled" for c
    using that by (simp add: insert_sections_def str_replace_count_absent)
  show ?thesis using a b c by blast
qed

theorem insert_sections_places_witness:
  \<open>\<not> contains marker (''<body><p>end</p>'' @ butlast marker) \<and>
   insert_sections (''<body><p>end</p>'' @ marker @ ''></section><section id="end"></section></body>'')
       (join ''\<newline>'' [''<p>a</p>'', ''<p>b</p>'']) =
     ''<body><p>end</p><p>a</p>\<newline><p>b</p>\<newline><section id="end"></section><section id="end"></section></body>'' \<and>
   \<not> contains marker (''<body>x'' @ ''</body>'' @ ''</body>'') \<and>
   \<not> contains ''</body>'' (''<body>x'' @ butlast ''</body>'') \<and>
   insert_sections (''<body>x'' @ ''</body>'' @ ''</body>'') (join ''\<newline>'' [''<p>a</p>'', ''<p>b</p>'']) =
     ''<body>x<p>a</p>\<newline><p>b</p>\<newline></body></body>'' \<and>
   \<not> contains marker ''<html></html>'' \<and> \<not> contains ''</body>'' ''<html></html>'' \<and>
   insert_sections ''<html></html>'' (join ''\<newline>'' [''<p>a</p>'', ''<p>b</p>'']) = ''<html></html>''\<close>
proof -
  have h1: "\<not> contains marker (''<body><p>end</p>'' @ butlast marker)"
    by (simp add: marker_def)
  have h2: "\<not> contains marker (''<body>x'' @ ''</body>'' @ ''</body>'')"
    and h3: "\<not> contains ''</body>'' (''<body>x'' @ butlast ''</body>'')"
    and h4: "\<not> contains marker ''<html></html>''" and h5: "\<not> contains ''</body>'' ''<html></html>''"
    by (simp_all add: marker_def)
  have m: \<open>marker @ ''></section><section id="end"></section></body>'' =
      ''<section id="end"></section><section id="end"></section></body>''\<close>
    by (simp add: marker_def)
  show ?thesis
    using h1 h2 h3 h4 h5 m
      insert_sections_places [of "''<body><p>end</p>'' @ marker @ ''></section><section id=\"end\"></section></body>''"
        "''<body><p>end</p>''" "''></section><section id=\"end\"></section></body>''" "[''<p>a</p>'', ''<p>b</p>'']"]
      insert_sections_places [of "''<body>x'' @ ''</body>'' @ ''</body>''" "''<body>x''" "''</body>''"
        "[''<p>a</p>'', ''<p>b</p>'']"]
      insert_sections_places [of "''<html></html>''" "[]" "[]" "[''<p>a</p>'', ''<p>b</p>'']"]
    by simp
qed

text \<open>
  The claim as stated promises an insertion for every wrapper. With a wrapper that has
  neither the marker nor a closing body tag, \<open>build\<close> ends normally and the HTML written is
  the wrapper itself: the text of the section \<open>a.html\<close> is not in it.
\<close>

theorem build_without_anchor_counterexample:
  \<open>\<forall>py.
   status
     (build py (\<lambda>v. ''null'')
        \<lparr>files = [''/r/report.html'' \<mapsto> ''<html><p>x</p></html>'',
                  ''/r/sections/a.html'' \<mapsto> ''<p>a</p>''],
         globbed = [''a.html''], playwright = False, print_pdf = (\<lambda>fls p. [])\<rparr>
        ''/r''
        \<lparr>title = None, subtitle = None, prepared = None, kicker = None,
         sections = None, theme = None\<rparr>
        ''build/report.pdf'' ''build/report.tmp.html'') = Done \<and>
   files_after
     (build py (\<lambda>v. ''null'')
        \<lparr>files = [''/r/report.html'' \<mapsto> ''<html><p>x</p></html>'',
                  ''/r/sections/a.html'' \<mapsto> ''<p>a</p>''],
         globbed = [''a.html''], playwright = False, print_pdf = (\<lambda>fls p. [])\<rparr>
        ''/r''
        \<lparr>title = None, subtitle = None, prepared = None, kicker = None,
         sections = None, theme = None\<rparr>
        ''build/report.pdf'' ''build/report.tmp.html'')
     ''/r/build/report.tmp.html'' = Some ''<html><p>x</p></html>''\<close>
  by (simp add: build_defs)

section \<open>A wrapper with no place for the sections\<close>

text \<open>
  Claim C10, as amended. \<open>build\<close> looks for the end marker and for \<open></body>\<close> in the
  assembled text, that is the wrapper after placeholder substitution, snapshot injection
  and theme override. When that text contains neither, and both output paths are relative
  to the report directory, the assembled text is written unchanged, the command ends
  normally, and what it prints is the warnings for the sections not found, the line
  reporting the HTML and the lines of the PDF step: nothing reports the omission.
\<close>

theorem build_omits_sections_without_anchor:
  assumes "assemble_html dumps (files e) (cfg0\<lparr>sections := Some []\<rparr>) (pjoin base_dir ''report.html'')
             = Inr assembled"
    and "\<not> contains marker assembled" and "\<not> contains ''</body>'' assembled"
    and "\<not> prefix ''/'' html_out" and "\<not> prefix ''/'' out"
  shows "build py dumps e base_dir cfg0 out html_out =
     (let out_html = pjoin base_dir html_out;
          out_pdf = pjoin base_dir out;
          warnings = snd (resolve_sections (files e) base_dir (parent out_html) (build_sections py e cfg0));
          x = export_pdf e ((files e)(out_html \<mapsto> assembled)) out_html out_pdf
      in \<lparr>status = Done, files_after = fst x,
          printed = warnings @ [InfoAssembled html_out] @ snd x @
            (if fst x out_pdf = None then [] else [InfoPdfWritten out])\<rparr>)"
proof -
  have "insert_sections assembled c = assembled" for c
    using assms(2,3) by (simp add: insert_sections_def str_replace_count_absent)
  then show ?thesis
    using build_outcome [OF assms(1,4,5)] by (simp add: Let_def)
qed

theorem build_omits_sections_without_anchor_witness:
  \<open>assemble_html (\<lambda>v. ''null'')
     [''/r/report.html'' \<mapsto> ''<html><p>x</p></html>'', ''/r/sections/a.html'' \<mapsto> ''<p>a</p>'']
     \<lparr>title = None, subtitle = None, prepared = None, kicker = None,
      sections = Some [], theme = None\<rparr> ''/r/report.html'' = Inr ''<html><p>x</p></html>'' \<and>
   \<not> contains marker ''<html><p>x</p></html>'' \<and> \<not> contains ''</body>'' ''<html><p>x</p></html>'' \<and>
   \<not> prefix ''/'' ''build/report.tmp.html'' \<and> \<not> prefix ''/'' ''build/report.pdf'' \<and>
   (\<forall>py.
      build py (\<lambda>v. ''null'')
        \<lparr>files = [''/r/report.html'' \<mapsto> ''<html><p>x</p></html>'',
                  ''/r/sections/a.html'' \<mapsto> ''<p>a</p>''],
         globbed = [''a.html''], playwright = False, print_pdf = (\<lambda>fls p. [])\<rparr>
        ''/r''
        \<lparr>title = None, subtitle = None, prepared = None, kicker = None,
         sections = Some [''sections/a.html'', ''sections/b.html''], theme = None\<rparr>
        ''build/report.pdf'' ''build/report.tmp.html'' =
     \<lparr>status = Done,
      files_after = [''/r/report.html'' \<mapsto> ''<html><p>x</p></html>'',
                     ''/r/sections/a.html'' \<mapsto> ''<p>a</p>'',
                     ''/r/build/report.tmp.html'' \<mapsto> ''<html><p>x</p></html>''],
      printed = [WarnMissingSection ''sections/b.html'', InfoAssembled ''build/report.tmp.html'',
                 WarnNoPlaywright, WarnHtmlStillProduced]\<rparr>)\<close>
proof -
  let ?e = "\<lparr>files = [''/r/report.html'' \<mapsto> ''<html><p>x</p></html>'',
                  ''/r/sections/a.html'' \<mapsto> ''<p>a</p>''],
         globbed = [''a.html''], playwright = False, print_pdf = (\<lambda>fls p. [])\<rparr>"
  let ?c = "\<lparr>title = None, subtitle = None, prepared = None, kicker = None,
         sections = Some [''sections/a.html'', ''sections/b.html''], theme = None\<rparr>"
  have h1: "assemble_html (\<lambda>v. ''null'') (files ?e) (?c\<lparr>sections := Some []\<rparr>)
      (pjoin ''/r'' ''report.html'') = Inr ''<html><p>x</p></html>''"
    by (simp add: build_defs)
  have h2: "\<not> contains marker ''<html><p>x</p></html>''"
    and h3: "\<not> contains ''</body>'' ''<html><p>x</p></html>''"
    and h4: "\<not> prefix ''/'' ''build/report.tmp.html''" and h5: "\<not> prefix ''/'' ''build/report.pdf''"
    by (simp_all add: marker_def)
  show ?thesis
    using h1 h2 h3 build_omits_sections_without_anchor [OF h1 h2 h3 h4 h5]
    by (simp add: build_sections_def export_pdf_def section_path_def pjoin_def parent_def Let_def)
qed

text \<open>
  The claim as stated reads the condition on the wrapper template. A template with neither
  the marker nor \<open></body>\<close> can get a closing body tag from a configuration value: here the
  title, put in for \<open>[TITLE]\<close>. The section text is then inserted.
\<close>

theorem build_inserts_by_title_counterexample:
  \<open>\<not> contains marker ''[TITLE]'' \<and> \<not> contains ''</body>'' ''[TITLE]'' \<and>
   (\<forall>py.
    files_after
     (build py (\<lambda>v. ''null'')
        \<lparr>files = [''/r/report.html'' \<mapsto> ''[TITLE]'', ''/r/sections/a.html'' \<mapsto> ''<p>a</p>''],
         globbed = [''a.html''], playwright = False, print_pdf = (\<lambda>fls p. [])\<rparr>
        ''/r''
        \<lparr>title = Some ''</body>'', subtitle = None, prepared = None, kicker = None,
         sections = None, theme = None\<rparr>
        ''build/report.pdf'' ''build/report.tmp.html'')
     ''/r/build/report.tmp.html'' = Some ''<p>a</p>\<newline></body>'')\<close>
  by (simp add: build_defs)

section \<open>The configuration snapshot of the assembled page\<close>

text \<open>
  Claim C9. In \<open>scriptura.py\<close>, the snapshot \<open>window.__CONFIG__\<close> that \<open>build\<close> puts before
  \<open></head>\<close> always has the line \<open>sections: []\<close>, whatever sections the configuration
  declares and whatever files are found on disk: the equation below gives \<open>build\<close> for every
  input, and the only snapshot text in it ends with the empty list. The sections of the
  configuration or of the directory reach the output only as inserted text.
\<close>

theorem build_snapshot_sections_empty:
  "build py dumps e base_dir cfg0 out html_out =
     (case files e (pjoin base_dir ''report.html'') of
        None \<Rightarrow>
          \<lparr>status = Uncaught (FileNotFoundError (pjoin base_dir ''report.html'')),
           files_after = files e, printed = []\<rparr>
      | Some wrapper \<Rightarrow>
          (let snapshot =
                 ''\<newline><script>\<newline>window.__CONFIG__ = {\<newline>  title: '' @ dumps (title cfg0) @
                 '',\<newline>  subtitle: '' @ dumps (subtitle cfg0) @
                 '',\<newline>  prepared: '' @ dumps (prepared cfg0) @
                 '',\<newline>  kicker: '' @ dumps (kicker cfg0) @
                 '',\<newline>  sections: []\<newline>};\<newline></script>\<newline>'';
               injected = str_replace ''</head>'' (snapshot @ ''\<newline></head>'')
                            (apply_placeholders wrapper cfg0);
               assembled = (case theme cfg0 of
                              None \<Rightarrow> injected
                            | Some t \<Rightarrow> if t = [] then injected else override_theme_links injected t);
               r = resolve_sections (files e) base_dir (parent (pjoin base_dir html_out))
                     (build_sections py e cfg0)
           in write_and_export e base_dir (pjoin base_dir out) (pjoin base_dir html_out) (snd r)
                (insert_sections assembled (join ''\<newline>'' (map (text_of (files e)) (fst r))))))"
proof (cases "files e (pjoin base_dir ''report.html'')")
  case None
  then show ?thesis
    by (simp add: build_def assemble_html_def read_text_def Let_def)
next
  case (Some wrapper)
  have b: "boot dumps (c\<lparr>sections := Some []\<rparr>) =
      ''\<newline><script>\<newline>window.__CONFIG__ = {\<newline>  title: '' @ dumps (title c) @
                 '',\<newline>  subtitle: '' @ dumps (subtitle c) @
                 '',\<newline>  prepared: '' @ dumps (prepared c) @
                 '',\<newline>  kicker: '' @ dumps (kicker c) @
                 '',\<newline>  sections: []\<newline>};\<newline></script>\<newline>''" for c
    by (simp add: boot_def json_dumps_list_def)
  show ?thesis
    using Some
    by (cases "or_nil (sections cfg0) = []")
       (simp_all add: build_def assemble_html_def read_text_def inject_boot_config_def b
          apply_placeholders_sections build_sections_def Let_def case_prod_beta
          split: option.splits)
qed

section \<open>Sections that are not on disk\<close>







section \<open>Building without Playwright\<close>





section \<open>Lint: the missing heading and the exit status\<close>

lemma check_file_names:
  "err \<in> set (check_file b g) \<Longrightarrow> err \<in> {NoSection (fname g), NoH1 (fname g), EmptySection (fname g)}"
  by (auto simp: check_file_def split: if_splits option.splits)

lemma count_other_file:
  "fname g \<noteq> n \<Longrightarrow> count_list (check_file b g) (NoH1 n) = 0 \<and> count_list (check_file b g) (NoSection n) = 0"
  using check_file_names [of _ b g] by (auto simp: count_list_0_iff)

lemma count_list_concat_files:
  assumes "distinct (map fname fs)" "f \<in> set fs" "x = NoH1 (fname f) \<or> x = NoSection (fname f)"
  shows "count_list (concat (map (check_file b) fs)) x = count_list (check_file b f) x"
  using assms(1,2)
proof (induction fs)
  case Nil
  then show ?case by simp
next
  case (Cons g fs)
  show ?case
  proof (cases "g = f")
    case True
    have "\<forall>h \<in> set fs. fname h \<noteq> fname f"
    proof
      fix h assume "h \<in> set fs"
      then have "fname h \<in> set (map fname fs)" by simp
      moreover have "fname g \<notin> set (map fname fs)" using Cons.prems(1) by simp
      ultimately show "fname h \<noteq> fname f" using True by metis
    qed
    then have "count_list (concat (map (check_file b) fs)) x = 0"
      using assms(3) by (induction fs) (auto simp: count_other_file)
    then show ?thesis using True by simp
  next
    case False
    then have "f \<in> set fs" "fname g \<noteq> fname f"
      using Cons.prems by auto
    then show ?thesis
      using Cons.IH Cons.prems(1) assms(3) by (auto simp: count_other_file)
  qed
qed

lemma lint_errors_eq:
  "lint_errors (lint py b (Some fs)) =
     (if fs = [] then [SectionsEmpty] else []) @ concat (map (check_file b) fs)"
  by (simp add: lint_def lint_end_def Let_def)

lemma lint_status_iff:
  "exit_status (lint_status (lint py b d)) \<noteq> 0 \<longleftrightarrow> lint_errors (lint py b d) \<noteq> []"
  by (cases d) (simp_all add: lint_def lint_end_def Let_def)

text \<open>
  Claim C4, as amended. In \<open>lint\<close> of \<open>scriptura.py\<close>, for a file of a directory with distinct
  names: without BeautifulSoup, a file whose text has no \<open><h1\<close> gets exactly one missing-h1
  error; with BeautifulSoup, a file that has a \<open>section\<close> element with no \<open>h1\<close> below its first
  one gets exactly one missing-h1 error, and a file with no \<open>section\<close> element gets exactly
  one missing-section error and no missing-h1 error. The exit status is not zero exactly
  when an error was recorded; the warning about the order is no error. In \<open>lint\<close> of
  \<open>cli.py\<close>, a parsed file with no \<open>h1\<close> to \<open>h4\<close> element gets exactly the missing-h1 message,
  and the exit status is not zero exactly when a message was counted.
\<close>

theorem lint_missing_h1:
  "(distinct (map fname fs) \<and> f \<in> set fs \<and> \<not> contains ''<h1'' (ftext f) \<longrightarrow>
      count_list (lint_errors (lint py False (Some fs))) (NoH1 (fname f)) = 1) \<and>
   (distinct (map fname fs) \<and> f \<in> set fs \<and> find_tag ''section'' (soup f) = Some sect \<and>
    find_tag ''h1'' (children sect) = None \<longrightarrow>
      count_list (lint_errors (lint py True (Some fs))) (NoH1 (fname f)) = 1) \<and>
   (distinct (map fname fs) \<and> f \<in> set fs \<and> find_tag ''section'' (soup f) = None \<longrightarrow>
      count_list (lint_errors (lint py True (Some fs))) (NoH1 (fname f)) = 0 \<and>
      count_list (lint_errors (lint py True (Some fs))) (NoSection (fname f)) = 1) \<and>
   (exit_status (lint_status (lint py b d)) \<noteq> 0) = (lint_errors (lint py b d) \<noteq> []) \<and>
   (snd g = Some tree \<and> filter (\<lambda>h. tag h \<in> {''h1'', ''h2'', ''h3'', ''h4''}) (elements_list tree) = [] \<longrightarrow>
      cli_check_file g = [NoH1Heading (fst g)]) \<and>
   (exit_status (cli_lint py css gs) \<noteq> 0) = (cli_lint_msgs py css gs \<noteq> [])"
proof -
  have c: "count_list (lint_errors (lint py u (Some fs))) x = count_list (check_file u f) x"
    if "distinct (map fname fs)" "f \<in> set fs" "x = NoH1 (fname f) \<or> x = NoSection (fname f)" for u x
    using count_list_concat_files [OF that] that(3) by (auto simp: lint_errors_eq)
  have 1: "count_list (check_file False f) (NoH1 (fname f)) = 1" if "\<not> contains ''<h1'' (ftext f)"
    using that by (simp add: check_file_def)
  have 2: "count_list (check_file True f) (NoH1 (fname f)) = 1"
    if "find_tag ''section'' (soup f) = Some sect" "find_tag ''h1'' (children sect) = None"
    using that by (simp add: check_file_def)
  have 3: "count_list (check_file True f) (NoH1 (fname f)) = 0 \<and>
           count_list (check_file True f) (NoSection (fname f)) = 1"
    if "find_tag ''section'' (soup f) = None"
    using that by (simp add: check_file_def)
  have 5: "cli_check_file g = [NoH1Heading (fst g)]"
    if "snd g = Some tree" "filter (\<lambda>h. tag h \<in> {''h1'', ''h2'', ''h3'', ''h4''}) (elements_list tree) = []"
    using that by (simp add: cli_check_file_def)
  have 6: "(exit_status (cli_lint py css gs) \<noteq> 0) = (cli_lint_msgs py css gs \<noteq> [])"
    by (simp add: cli_lint_def)
  show ?thesis
    using c 1 2 3 5 6 lint_status_iff [of py b d] by simp
qed

theorem lint_missing_h1_witness:
  "distinct (map fname [\<lparr>fname = ''a.html'', ftext = ''<section><p>hi</p></section>'',
                         soup = [Elem ''section'' [Elem ''p'' [Txt ''hi'']]]\<rparr>]) \<and>
   \<not> contains ''<h1'' ''<section><p>hi</p></section>'' \<and>
   find_tag ''section'' [Elem ''section'' [Elem ''p'' [Txt ''hi'']]] = Some (Elem ''section'' [Elem ''p'' [Txt ''hi'']]) \<and>
   find_tag ''h1'' (children (Elem ''section'' [Elem ''p'' [Txt ''hi'']])) = None \<and>
   (\<forall>py. count_list (lint_errors (lint py False (Some [\<lparr>fname = ''a.html'', ftext = ''<section><p>hi</p></section>'',
      soup = [Elem ''section'' [Elem ''p'' [Txt ''hi'']]]\<rparr>]))) (NoH1 ''a.html'') = 1) \<and>
   (\<forall>py. count_list (lint_errors (lint py True (Some [\<lparr>fname = ''a.html'', ftext = ''<section><p>hi</p></section>'',
      soup = [Elem ''section'' [Elem ''p'' [Txt ''hi'']]]\<rparr>]))) (NoH1 ''a.html'') = 1) \<and>
   find_tag ''section'' [Elem ''p'' [Txt ''hi'']] = None \<and>
   (\<forall>py. count_list (lint_errors (lint py True (Some [\<lparr>fname = ''b.html'', ftext = ''<p>hi</p>'',
      soup = [Elem ''p'' [Txt ''hi'']]\<rparr>]))) (NoH1 ''b.html'') = 0) \<and>
   (\<forall>py. count_list (lint_errors (lint py True (Some [\<lparr>fname = ''b.html'', ftext = ''<p>hi</p>'',
      soup = [Elem ''p'' [Txt ''hi'']]\<rparr>]))) (NoSection ''b.html'') = 1) \<and>
   filter (\<lambda>h. tag h \<in> {''h1'', ''h2'', ''h3'', ''h4''}) (elements_list [Elem ''p'' [Txt ''hi'']]) = [] \<and>
   cli_check_file (''b.html'', Some [Elem ''p'' [Txt ''hi'']]) = [NoH1Heading ''b.html'']"
proof -
  let ?fa = "\<lparr>fname = ''a.html'', ftext = ''<section><p>hi</p></section>'',
              soup = [Elem ''section'' [Elem ''p'' [Txt ''hi'']]]\<rparr>"
  let ?fb = "\<lparr>fname = ''b.html'', ftext = ''<p>hi</p>'', soup = [Elem ''p'' [Txt ''hi'']]\<rparr>"
  let ?g = "(''b.html'', Some [Elem ''p'' [Txt ''hi'']])"
  have h1: "distinct (map fname [?fa])" "?fa \<in> set [?fa]" "distinct (map fname [?fb])" "?fb \<in> set [?fb]"
    by simp_all
  have h2: "\<not> contains ''<h1'' (ftext ?fa)"
    by simp
  have h3: "find_tag ''section'' (soup ?fa) = Some (Elem ''section'' [Elem ''p'' [Txt ''hi'']])"
    and h4: "find_tag ''h1'' (children (Elem ''section'' [Elem ''p'' [Txt ''hi'']])) = None"
    and h5: "find_tag ''section'' (soup ?fb) = None"
    by (simp_all add: find_tag_def)
  have h6: "snd ?g = Some [Elem ''p'' [Txt ''hi'']]"
    and h7: "filter (\<lambda>h. tag h \<in> {''h1'', ''h2'', ''h3'', ''h4''}) (elements_list [Elem ''p'' [Txt ''hi'']]) = []"
    by simp_all
  have a: "count_list (lint_errors (lint py False (Some [?fa]))) (NoH1 ''a.html'') = 1 \<and>
      count_list (lint_errors (lint py True (Some [?fa]))) (NoH1 ''a.html'') = 1 \<and>
      count_list (lint_errors (lint py True (Some [?fb]))) (NoH1 ''b.html'') = 0 \<and>
      count_list (lint_errors (lint py True (Some [?fb]))) (NoSection ''b.html'') = 1 \<and>
      cli_check_file ?g = [NoH1Heading ''b.html'']" for py
    using h1 h2 h3 h4 h5 h6 h7
      lint_missing_h1 [of "[?fa]" ?fa py "Elem ''section'' [Elem ''p'' [Txt ''hi'']]" True None ?g
        "[Elem ''p'' [Txt ''hi'']]" "\<lambda>c. True" "[]"]
      lint_missing_h1 [of "[?fb]" ?fb py "Elem ''section'' [Elem ''p'' [Txt ''hi'']]" True None ?g
        "[Elem ''p'' [Txt ''hi'']]" "\<lambda>c. True" "[]"]
    by simp
  show ?thesis
    using h1 h2 h3 h4 h5 h6 h7 a by simp
qed

text \<open>
  The claim as stated promises the missing-h1 error for every file without a heading. With
  BeautifulSoup, a file that has no \<open>section\<close> element either gets the missing-section error
  and the loop goes on to the next file: no missing-h1 error is recorded for it.
\<close>

theorem lint_no_heading_counterexample:
  "elements_list [Elem ''p'' [Txt ''hi'']] = [Elem ''p'' [Txt ''hi'']] \<and>
   (\<forall>py.
      lint py True (Some [\<lparr>fname = ''a.html'', ftext = ''<p>hi</p>'', soup = [Elem ''p'' [Txt ''hi'']]\<rparr>]) =
     \<lparr>lint_status = SysExit 1, lint_errors = [NoSection ''a.html''],
      lint_printed = [ErrLine (NoSection ''a.html'')]\<rparr>)"
  by (simp add: lint_def lint_end_def check_file_def find_tag_def discover_sections_def Let_def)

section \<open>The order of the discovered sections\<close>

lemma sort_key_cong_set:
  assumes "\<And>x. x \<in> set xs \<Longrightarrow> f x = g x"
  shows "sort_key f xs = sort_key g xs"
proof (rule properties_for_sort_key)
  show "mset (sort_key g xs) = mset xs" by simp
  have eq: "f x = g x" if "x \<in> set (sort_key g xs)" for x
    using that assms by simp
  have m: "map f (sort_key g xs) = map g (sort_key g xs)"
    using eq by (intro map_cong) auto
  show "sorted (map f (sort_key g xs))"
    unfolding m by (rule sorted_sort_key)
  fix k assume k: "k \<in> set (sort_key g xs)"
  have "filter (\<lambda>x. f k = f x) (sort_key g xs) = filter (\<lambda>x. g x = g k) (sort_key g xs)"
    using eq k by (intro filter_cong) auto
  also have "\<dots> = filter (\<lambda>x. g x = g k) xs"
    by (rule sort_key_stable)
  also have "\<dots> = filter (\<lambda>x. f k = f x) xs"
    using assms k by (intro filter_cong) auto
  finally show "filter (\<lambda>x. f k = f x) (sort_key g xs) = filter (\<lambda>x. f k = f x) xs" .
qed

lemma agrees_on_ascii_tables: "agrees_on_ascii ascii_tables"
  by (simp add: agrees_on_ascii_def ascii_tables_def)

lemma ascii_section_key:
  assumes "agrees_on_ascii py" "\<forall>c \<in> set name. of_char c < (128::nat)"
  shows "section_key py name = section_key ascii_tables name"
proof -
  let ?s = "map of_char name :: nat list"
  have d: "fsdecode py name = ?s" "fsdecode ascii_tables name = ?s"
    using assms by (simp_all add: agrees_on_ascii_def ascii_tables_def)
  have small: "\<forall>c \<in> set ?s. c < 128"
    using assms(2) by auto
  have dec: "decimal py c = decimal ascii_tables c" if "c \<in> set ?s" for c
    using assms(1) small that by (auto simp: agrees_on_ascii_def ascii_tables_def)
  have isd: "is_decimal py c = is_decimal ascii_tables c" if "c \<in> set ?s" for c
    using dec [OF that] by (simp add: is_decimal_def)
  have tw: "takeWhile (is_decimal py) ?s = takeWhile (is_decimal ascii_tables) ?s"
    using isd by (intro takeWhile_cong) auto
  have dw: "dropWhile (is_decimal py) ?s = dropWhile (is_decimal ascii_tables) ?s"
    using isd by (intro dropWhile_cong) auto
  have iod: "int_of_digits py ds = int_of_digits ascii_tables ds" if "set ds \<subseteq> set ?s" for ds
    unfolding int_of_digits_def
    using that dec by (intro foldl_cong) auto
  have sub: "set (takeWhile (is_decimal ascii_tables) ?s) \<subseteq> set ?s"
    using set_takeWhileD by fastforce
  have lo: "str_lower py ?s = str_lower ascii_tables ?s"
    using assms(1) small by (simp add: agrees_on_ascii_def ascii_tables_def)
  show ?thesis
    by (simp add: section_key_def d tw dw lo iod [OF sub] Let_def)
qed


lemma filter_eq_of_mset:
  assumes "mset xs = mset ys" "filter P ys = [k]"
  shows "filter P xs = [k]"
proof -
  have single: "zs = [k]" if "mset zs = {#k#}" for zs :: "'a list"
    using that by simp
  have "mset (filter P xs) = mset (filter P ys)"
    using assms(1) by simp
  then have "mset (filter P xs) = {#k#}"
    by (simp only: assms(2) mset.simps)
  then show ?thesis by (rule single)
qed

lemma filter_key_single:
  "distinct (map f ys) \<Longrightarrow> k \<in> set ys \<Longrightarrow> filter (\<lambda>x. f k = f x) ys = [k]"
proof (induction ys)
  case Nil
  then show ?case by simp
next
  case (Cons a ys)
  show ?case
  proof (cases "k = a")
    case True
    have "f a \<notin> f ` set ys" using Cons.prems(1) by simp
    then have "filter (\<lambda>x. f a = f x) ys = []"
      by (auto simp: filter_empty_conv)
    then show ?thesis using True by simp
  next
    case False
    then have k: "k \<in> set ys" using Cons.prems(2) by simp
    have "f a \<notin> f ` set ys" using Cons.prems(1) by simp
    then have "f k \<noteq> f a" using k by (metis imageI)
    then show ?thesis using Cons.IH k Cons.prems(1) by simp
  qed
qed

text \<open>A list whose keys are sorted and distinct is what sorting any of its listings gives.\<close>

lemma sort_key_eqI:
  assumes "mset xs = mset ys" "sorted (map f ys)" "distinct (map f ys)"
  shows "sort_key f xs = ys"
proof (rule properties_for_sort_key)
  show "mset ys = mset xs" using assms(1) by simp
  show "sorted (map f ys)" by (rule assms(2))
  fix k assume k: "k \<in> set ys"
  have y: "filter (\<lambda>x. f k = f x) ys = [k]"
    by (rule filter_key_single [OF assms(3) k])
  have "filter (\<lambda>x. f k = f x) xs = [k]"
    by (rule filter_eq_of_mset [OF assms(1) y])
  then show "filter (\<lambda>x. f k = f x) ys = filter (\<lambda>x. f k = f x) xs"
    using y by simp
qed

lemma example_keys:
  "sorted (map (section_key ascii_tables) [''01-a.html'', ''02-b.html'', ''x.html''])"
  "distinct (map (section_key ascii_tables) [''01-a.html'', ''02-b.html'', ''x.html''])"
  "sorted (map (map (fsdecode ascii_tables)) [[''01-a.html''], [''02-b.html''], [''x.html'']])"
  "distinct (map (map (fsdecode ascii_tables)) [[''01-a.html''], [''02-b.html''], [''x.html'']])"
  by code_simp+


lemma example_ascii:
  "\<forall>n \<in> set [''01-a.html'', ''02-b.html'', ''x.html'']. \<forall>c \<in> set n. of_char c < (128::nat)"
  by code_simp

lemma example_sorted:
  assumes "agrees_on_ascii py" "mset listed = mset [''02-b.html'', ''01-a.html'', ''x.html'']"
  shows "sort_key (section_key py) listed = [''01-a.html'', ''02-b.html'', ''x.html'']"
    and "sort_key (map (fsdecode py)) (map (\<lambda>n. [n]) listed) =
           [[''01-a.html''], [''02-b.html''], [''x.html'']]"
proof -
  let ?ys = "[''01-a.html'', ''02-b.html'', ''x.html'']"
  have m: "mset listed = mset ?ys"
    using assms(2) by (simp add: add.commute)
  have st: "set listed = set ?ys"
    by (rule mset_eq_setD [OF m])
  have ascii: "\<forall>c \<in> set n. of_char c < (128::nat)" if "n \<in> set listed" for n
    using that example_ascii unfolding st by blast
  have k1: "section_key py n = section_key ascii_tables n" if "n \<in> set listed" for n
    by (rule ascii_section_key [OF assms(1) ascii [OF that]])
  have k2: "map (fsdecode py) p = map (fsdecode ascii_tables) p"
    if p: "p \<in> set (map (\<lambda>n. [n]) listed)" for p
  proof -
    obtain n where n: "n \<in> set listed" "p = [n]"
      using p by auto
    have "fsdecode py n = map of_char n"
      using assms(1) ascii [OF n(1)] by (simp add: agrees_on_ascii_def)
    then show ?thesis
      by (simp add: n(2) ascii_tables_def)
  qed
  have "sort_key (section_key py) listed = sort_key (section_key ascii_tables) listed"
    by (rule sort_key_cong_set [OF k1])
  also have "\<dots> = ?ys"
    by (rule sort_key_eqI [OF m example_keys(1) example_keys(2)])
  finally show "sort_key (section_key py) listed = ?ys" .
  have m2: "mset (map (\<lambda>n. [n]) listed) = mset [[''01-a.html''], [''02-b.html''], [''x.html'']]"
    using arg_cong [OF m, of "image_mset (\<lambda>n. [n])"] by simp
  have "sort_key (map (fsdecode py)) (map (\<lambda>n. [n]) listed) =
        sort_key (map (fsdecode ascii_tables)) (map (\<lambda>n. [n]) listed)"
    by (rule sort_key_cong_set [OF k2])
  also have "\<dots> = [[''01-a.html''], [''02-b.html''], [''x.html'']]"
    by (rule sort_key_eqI [OF m2 example_keys(3) example_keys(4)])
  finally show "sort_key (map (fsdecode py)) (map (\<lambda>n. [n]) listed) =
           [[''01-a.html''], [''02-b.html''], [''x.html'']]" .
qed


text \<open>
  Claim C2, as amended. \<open>discover_sections\<close> of \<open>scriptura.py\<close> returns \<open>sections/\<close> and the name
  for the names the glob yields, ordered by the key: the number before \<open>-\<close> or \<open>_\<close> if the
  name starts with a run of decimal digits followed by one of the two, else 1000000; then
  the name in lower case. Digits and lower case are those of Python's Unicode tables,
  whatever they hold. Names with the same key stay in the order in which the directory
  lists them. \<open>find_sections\<close> of \<open>cli.py\<close> returns the paths the glob yields in the order of
  \<open>Path\<close> objects, part by part and each part by code points, with no numeric key; paths
  that compare equal stay in the order of the listing. For a directory that holds
  \<open>02-b.html\<close>, \<open>01-a.html\<close> and \<open>x.html\<close>, listed in any order, and tables that treat ASCII
  names as every version of Python does, both give \<open>01-a.html\<close>, \<open>02-b.html\<close>, \<open>x.html\<close>.
\<close>

theorem section_discovery_order:
  "(\<exists>names. discover_sections py listed = map (\<lambda>n. ''sections/'' @ n) names \<and>
       mset names = mset listed \<and> sorted (map (section_key py) names) \<and>
       (\<forall>k. filter (\<lambda>n. section_key py n = k) names =
            filter (\<lambda>n. section_key py n = k) listed)) \<and>
   mset (find_sections py paths) = mset paths \<and>
   sorted (map (map (fsdecode py)) (find_sections py paths)) \<and>
   (\<forall>k. filter (\<lambda>p. map (fsdecode py) p = k) (find_sections py paths) =
        filter (\<lambda>p. map (fsdecode py) p = k) paths) \<and>
   (agrees_on_ascii py \<and> mset listed = mset [''02-b.html'', ''01-a.html'', ''x.html''] \<longrightarrow>
      discover_sections py listed =
        [''sections/01-a.html'', ''sections/02-b.html'', ''sections/x.html''] \<and>
      find_sections py (map (\<lambda>n. [n]) listed) =
        [[''01-a.html''], [''02-b.html''], [''x.html'']])"
proof -
  have "discover_sections py listed =
          map (\<lambda>n. ''sections/'' @ n) (sort_key (section_key py) listed) \<and>
       mset (sort_key (section_key py) listed) = mset listed \<and>
       sorted (map (section_key py) (sort_key (section_key py) listed)) \<and>
       (\<forall>k. filter (\<lambda>n. section_key py n = k) (sort_key (section_key py) listed) =
            filter (\<lambda>n. section_key py n = k) listed)"
    by (simp add: discover_sections_def sort_key_stable)
  then have a: "\<exists>names. discover_sections py listed = map (\<lambda>n. ''sections/'' @ n) names \<and>
       mset names = mset listed \<and> sorted (map (section_key py) names) \<and>
       (\<forall>k. filter (\<lambda>n. section_key py n = k) names =
            filter (\<lambda>n. section_key py n = k) listed)"
    by blast
  have b: "mset (find_sections py paths) = mset paths \<and>
       sorted (map (map (fsdecode py)) (find_sections py paths)) \<and>
       (\<forall>k. filter (\<lambda>p. map (fsdecode py) p = k) (find_sections py paths) =
            filter (\<lambda>p. map (fsdecode py) p = k) paths)"
    by (simp add: find_sections_def sort_key_stable)
  have c: "discover_sections py listed =
        [''sections/01-a.html'', ''sections/02-b.html'', ''sections/x.html''] \<and>
      find_sections py (map (\<lambda>n. [n]) listed) =
        [[''01-a.html''], [''02-b.html''], [''x.html'']]"
    if "agrees_on_ascii py" "mset listed = mset [''02-b.html'', ''01-a.html'', ''x.html'']"
    using example_sorted [OF that] by (simp add: discover_sections_def find_sections_def)
  show ?thesis using a b c by blast
qed

theorem section_discovery_order_witness:
  "agrees_on_ascii ascii_tables \<and>
   mset [''x.html'', ''02-b.html'', ''01-a.html''] = mset [''02-b.html'', ''01-a.html'', ''x.html''] \<and>
   discover_sections ascii_tables [''x.html'', ''02-b.html'', ''01-a.html''] =
     [''sections/01-a.html'', ''sections/02-b.html'', ''sections/x.html''] \<and>
   find_sections ascii_tables [[''x.html''], [''02-b.html''], [''01-a.html'']] =
     [[''01-a.html''], [''02-b.html''], [''x.html'']]"
proof -
  have h: "mset [''x.html'', ''02-b.html'', ''01-a.html''] = mset [''02-b.html'', ''01-a.html'', ''x.html'']"
    by (simp add: add.commute)
  show ?thesis
    using h agrees_on_ascii_tables
      section_discovery_order [of ascii_tables "[''x.html'', ''02-b.html'', ''01-a.html'']"]
    by simp
qed

text \<open>
  The claim as stated breaks ties by file name and orders by the numeric key. Two names
  that differ only in case have the same key: the result then follows the listing, so two
  listings of the same directory give two orders. And \<open>find_sections\<close> puts \<open>10-a.html\<close>
  before \<open>2-b.html\<close>, against the key. The names are ASCII, on which \<open>ascii_tables\<close> is what
  every version of the tables gives (\<open>ascii_section_key\<close>).
\<close>

theorem section_discovery_ties_counterexample:
  "discover_sections ascii_tables [''a.html'', ''A.html''] = [''sections/a.html'', ''sections/A.html''] \<and>
   discover_sections ascii_tables [''A.html'', ''a.html''] = [''sections/A.html'', ''sections/a.html''] \<and>
   find_sections ascii_tables [[''10-a.html''], [''2-b.html'']] = [[''10-a.html''], [''2-b.html'']] \<and>
   section_key ascii_tables ''2-b.html'' < section_key ascii_tables ''10-a.html''"
  by code_simp

section \<open>Init on a target that exists\<close>

text \<open>The scaffold \<open>init\<close> of \<open>scriptura.py\<close> writes into an empty target.\<close>

lemma write_scaffold_empty:
  "write_scaffold Map.empty =
     [''sections'' \<mapsto> Dir, ''style'' \<mapsto> Dir, ''images'' \<mapsto> Dir, ''diagrams'' \<mapsto> Dir,
      ''build'' \<mapsto> Dir,
      ''report.html'' \<mapsto> File SCAFFOLD_REPORT_HTML,
      ''config.yaml'' \<mapsto> File SCAFFOLD_CONFIG,
      ''sections/01-introduction.html'' \<mapsto> File SAMPLE_introduction,
      ''sections/02-methodology.html'' \<mapsto> File SAMPLE_methodology,
      ''sections/03-results.html'' \<mapsto> File SAMPLE_results,
      ''.gitignore'' \<mapsto> File GITIGNORE]"
  by (simp add: write_scaffold_def mkdir_def write_file_def SAMPLE_SECTIONS_def Let_def)

text \<open>
  Claim C8. \<open>init\<close> of \<open>scriptura.py\<close> on a target directory that exists: without \<open>--force\<close>
  it ends at once with status 1 (a \<open>SystemExit\<close> with a message) and the directory is as it
  was; with \<open>--force\<close> the directory is removed, and what is there afterwards is the
  scaffold as it is written into an empty target, whatever the directory held: the five
  directories, \<open>report.html\<close>, \<open>config.yaml\<close>, the three sample sections and \<open>.gitignore\<close>,
  and the directory \<open>.git\<close> when \<open>git init\<close> ran. Once the scaffold is written the command
  ends normally, unless \<open>--git\<close> is on and there is no \<open>git\<close> program. \<open>init\<close> of \<open>cli.py\<close>
  takes no \<open>--force\<close>: on a target that exists it ends with status 1 and leaves it as it
  was.
\<close>

theorem init_existing_target:
  "init (Some t) False git gs =
     \<lparr>init_status = SysExit 1, target_after = Some t, init_printed = [ErrTargetExists]\<rparr> \<and>
   exit_status (init_status (init (Some t) False git gs)) = 1 \<and>
   target_after (init (Some t) True git gs) =
     Some (if git \<and> gs = OutsideRepository
           then mkdir (write_scaffold Map.empty) ''.git'' else write_scaffold Map.empty) \<and>
   target_after (init (Some t) True git gs) = target_after (init None True git gs) \<and>
   write_scaffold Map.empty =
     [''sections'' \<mapsto> Dir, ''style'' \<mapsto> Dir, ''images'' \<mapsto> Dir, ''diagrams'' \<mapsto> Dir,
      ''build'' \<mapsto> Dir,
      ''report.html'' \<mapsto> File SCAFFOLD_REPORT_HTML,
      ''config.yaml'' \<mapsto> File SCAFFOLD_CONFIG,
      ''sections/01-introduction.html'' \<mapsto> File SAMPLE_introduction,
      ''sections/02-methodology.html'' \<mapsto> File SAMPLE_methodology,
      ''sections/03-results.html'' \<mapsto> File SAMPLE_results,
      ''.gitignore'' \<mapsto> File GITIGNORE] \<and>
   init_status (init (Some t) True git gs) =
     (if git \<and> gs = GitMissing then Uncaught (FileNotFoundError ''git'') else Done) \<and>
   cli_init (Some t) dumped gs =
     \<lparr>init_status = SysExit 1, target_after = Some t, init_printed = [ErrTargetExists]\<rparr> \<and>
   exit_status (init_status (cli_init (Some t) dumped gs)) = 1"
  using write_scaffold_empty
  by (cases gs) (simp_all add: init_def cli_init_def Let_def)

end
